theory Spec2Isabelle
  imports Complex_Main "HOL-Library.Sublist"
begin

section \<open>Go strings as byte lists\<close>

text \<open>
  A Go \<open>string\<close> is a sequence of bytes and \<open>len\<close> counts bytes; it is modelled as
  \<^typ>\<open>string\<close> (a list of 8-bit characters). The functions of package \<open>strings\<close> that
  the code calls are written out after the Go standard library.
\<close>

text \<open>\<open>strings.HasPrefix(s, prefix)\<close>.\<close>

definition HasPrefix :: "string \<Rightarrow> string \<Rightarrow> bool" where
  "HasPrefix s p = (take (length p) s = p)"

text \<open>
  \<open>strings.Index(s, substr)\<close>: the index of the first instance of \<open>substr\<close> in \<open>s\<close>;
  Go's result \<open>-1\<close> (no instance) is \<open>None\<close>.
\<close>

fun Index :: "string \<Rightarrow> string \<Rightarrow> nat option" where
  "Index [] sub = (if sub = [] then Some 0 else None)"
| "Index (c # cs) sub =
     (if HasPrefix (c # cs) sub then Some 0 else map_option Suc (Index cs sub))"

text \<open>\<open>strings.Contains(s, substr)\<close> is \<open>Index(s, substr) >= 0\<close>.\<close>

definition Contains :: "string \<Rightarrow> string \<Rightarrow> bool" where
  "Contains s sub = (Index s sub \<noteq> None)"

text \<open>
  \<open>strings.Cut(s, sep)\<close>: slices \<open>s\<close> around the first instance of \<open>sep\<close>; without an
  instance it returns \<open>s, "", false\<close>.
\<close>

definition Cut :: "string \<Rightarrow> string \<Rightarrow> string \<times> string \<times> bool" where
  "Cut s sep =
     (case Index s sep of
        Some i \<Rightarrow> (take i s, drop (i + length sep) s, True)
      | None \<Rightarrow> (s, [], False))"

text \<open>
  The step of \<open>strings.ToLower\<close> on one ASCII byte: \<open>A\<close> .. \<open>Z\<close> (65 .. 90) move to
  \<open>a\<close> .. \<open>z\<close> (\<open>c += 'a' - 'A'\<close>), every other byte stays.
\<close>

definition toLowerByte :: "char \<Rightarrow> char" where
  "toLowerByte c =
     (if 65 \<le> (of_char c :: nat) \<and> (of_char c :: nat) \<le> 90
      then char_of ((of_char c :: nat) + 32) else c)"

text \<open>
  \<open>strings.ToLower(s)\<close>. When every byte of \<open>s\<close> is ASCII (below \<open>utf8.RuneSelf\<close>, 128)
  Go returns \<open>s\<close> itself if it has no upper-case letter, and otherwise \<open>s\<close> with each
  byte \<open>A\<close> .. \<open>Z\<close> lowered. For any other string it returns
  \<open>strings.Map(unicode.ToLower, s)\<close>, which decodes UTF-8 and consults the Unicode case
  tables (so that, for one, U+0130 becomes \<open>i\<close>); that library function is the
  parameter \<open>lower\<close>.
\<close>

definition ToLower :: "(string \<Rightarrow> string) \<Rightarrow> string \<Rightarrow> string" where
  "ToLower lower s =
     (let isASCII = list_all (\<lambda>c. (of_char c :: nat) < 128) s;
          hasUpper = list_ex (\<lambda>c. 65 \<le> (of_char c :: nat) \<and> (of_char c :: nat) \<le> 90) s
      in if isASCII then (if \<not> hasUpper then s else map toLowerByte s)
         else lower s)"


section \<open>Qualified tool names (internal/api/mcp\_tools.go)\<close>

definition serverToolNameSep :: string where
  "serverToolNameSep = ''::''"

text \<open>\<open>splitServerToolName\<close> splits the unique tool name into server name and tool name.\<close>

definition splitServerToolName :: "string \<Rightarrow> string \<times> string \<times> bool" where
  "splitServerToolName name = Cut name serverToolNameSep"


section \<open>Metrics (package metrics)\<close>

subsection \<open>Labels and constants\<close>

definition LabelMCPServerName :: string where "LabelMCPServerName = ''mcp_server_name''"
definition LabelToolName :: string where "LabelToolName = ''tool_name''"
definition LabelStatus :: string where "LabelStatus = ''status''"
definition LabelErrorType :: string where "LabelErrorType = ''error_type''"
definition LabelEventType :: string where "LabelEventType = ''event_type''"
definition LabelMCPMethod :: string where "LabelMCPMethod = ''mcp_method''"

definition ErrorTypeTimeout :: string where "ErrorTypeTimeout = ''timeout''"
definition ErrorTypeConnection :: string where "ErrorTypeConnection = ''connection''"
definition ErrorTypePermission :: string where "ErrorTypePermission = ''permission''"
definition ErrorTypeValidation :: string where "ErrorTypeValidation = ''validation''"
definition ErrorTypeRegistration :: string where "ErrorTypeRegistration = ''registration''"
definition ErrorTypeUnknown :: string where "ErrorTypeUnknown = ''unknown''"

definition EventTypeRegistered :: string where "EventTypeRegistered = ''registered''"
definition EventTypeDeregistered :: string where "EventTypeDeregistered = ''deregistered''"

text \<open>\<open>MetricStatus\<close> is a Go string type with two constants.\<close>

type_synonym MetricStatus = string

definition StatusSuccess :: MetricStatus where "StatusSuccess = ''success''"
definition StatusError :: MetricStatus where "StatusError = ''error''"

subsection \<open>boundString and getErrorType\<close>

text \<open>
  \<open>boundString\<close> ensures strings are capped at \<open>maxLen\<close> and not empty. The bound is
  a natural number here: every call site passes the constant 64 (Go's slice expression
  \<open>s[:maxLen]\<close> would panic for a negative bound, which no caller supplies).
\<close>

definition boundString :: "string \<Rightarrow> nat \<Rightarrow> string \<Rightarrow> string" where
  "boundString s maxLen fallback =
     (if s = [] then fallback
      else if length s > maxLen then take maxLen s
      else s)"

text \<open>
  \<open>getErrorType\<close> normalizes error messages into a small set of categories. The Go
  \<open>error\<close> argument is seen only through \<open>err == nil\<close> and \<open>err.Error()\<close>: it is
  modelled as \<open>None\<close> for nil and \<open>Some\<close> of the message otherwise. \<open>lower\<close> is the
  library function that \<open>strings.ToLower\<close> calls on text that is not ASCII.
\<close>

definition getErrorType :: "(string \<Rightarrow> string) \<Rightarrow> string option \<Rightarrow> string" where
  "getErrorType lower err =
     (case err of
        None \<Rightarrow> ''none''
      | Some msg \<Rightarrow>
          (let errStr = ToLower lower msg in
           if Contains errStr ''timeout'' then ErrorTypeTimeout
           else if Contains errStr ''connection'' then ErrorTypeConnection
           else if Contains errStr ''permission'' then ErrorTypePermission
           else if Contains errStr ''not found'' then ''not_found''
           else if Contains errStr ''invalid'' then ''invalid''
           else if Contains errStr ''cancelled'' then ''cancelled''
           else ErrorTypeUnknown))"

subsection \<open>Instruments and recorded measurements\<close>

text \<open>
  An OpenTelemetry attribute is a key with a string or a boolean value. A measurement is
  what an instrument receives: \<open>Add(ctx, n, attrs)\<close> on a counter, or
  \<open>Record(ctx, time.Since(started).Seconds(), attrs)\<close> on a histogram; the latter keeps
  the start time it measures from, the clock reading being outside the model.
\<close>

datatype attr_value = StringValue string | BoolValue bool

type_synonym KeyValue = "string \<times> attr_value"

datatype measurement = Add int "KeyValue list" | RecordSince nat "KeyValue list"

text \<open>
  An instrument is known by the name it was created with. The state that recording
  changes is the sequence of measurements made so far, each with its instrument.
\<close>

type_synonym instrument = string

type_synonym meter_log = "(instrument \<times> measurement) list"

record MCPMetrics =
  ToolInvocations :: instrument
  ToolLatency :: instrument
  ToolErrors :: instrument
  RequestsTotal :: instrument
  RequestLatency :: instrument
  RequestErrors :: instrument
  Sessions :: instrument
  ServerRegistrations :: instrument
  ServerDeregistrations :: instrument
  ServerTransport :: instrument
  ToolAvailability :: instrument
  ToolDiscovery :: instrument
  ErrorsByType :: instrument

text \<open>The value \<open>NewMCPMetrics\<close> returns when the meter creates every instrument.\<close>

definition NewMCPMetrics :: MCPMetrics where
  "NewMCPMetrics =
     \<lparr>ToolInvocations = ''mcpjungle_tool_invocations_total'',
      ToolLatency = ''mcpjungle_tool_latency_seconds'',
      ToolErrors = ''mcpjungle_tool_errors_total'',
      RequestsTotal = ''mcpjungle_client_requests_total'',
      RequestLatency = ''mcpjungle_request_duration_seconds'',
      RequestErrors = ''mcpjungle_request_errors_total'',
      Sessions = ''mcpjungle_connected_sessions'',
      ServerRegistrations = ''mcpjungle_server_registrations_total'',
      ServerDeregistrations = ''mcpjungle_server_deregistrations_total'',
      ServerTransport = ''mcpjungle_server_transport_total'',
      ToolAvailability = ''mcpjungle_tool_availability'',
      ToolDiscovery = ''mcpjungle_tool_discovery_total'',
      ErrorsByType = ''mcpjungle_errors_by_type_total''\<rparr>"

subsection \<open>Recording methods\<close>

text \<open>
  The receiver \<open>m *MCPMetrics\<close> may be nil: it is an \<^typ>\<open>MCPMetrics option\<close>. Each
  method takes the measurements made so far and returns them with its own appended.
  The two methods that call \<open>getErrorType\<close> pass its parameter \<open>lower\<close> on.
\<close>

definition RecordTool ::
  "(string \<Rightarrow> string) \<Rightarrow> MCPMetrics option \<Rightarrow> string \<Rightarrow> string \<Rightarrow> MetricStatus \<Rightarrow> nat
     \<Rightarrow> string option
     \<Rightarrow> meter_log \<Rightarrow> meter_log" where
  "RecordTool lower m mcpServerName toolName status started err ms =
     (case m of
        None \<Rightarrow> ms
      | Some mm \<Rightarrow>
          (let attrs0 =
                 [(LabelMCPServerName, StringValue (boundString mcpServerName 64 ''unknown'')),
                  (LabelToolName, StringValue (boundString toolName 64 ''unknown'')),
                  (LabelStatus, StringValue status)];
               attrs = (if err \<noteq> None
                        then attrs0 @ [(LabelErrorType, StringValue (getErrorType lower err))]
                        else attrs0);
               ms1 = ms @ [(ToolInvocations mm, Add 1 attrs)];
               ms2 = ms1 @ [(ToolLatency mm, RecordSince started attrs)]
           in if status = StatusError then ms2 @ [(ToolErrors mm, Add 1 attrs)] else ms2))"

definition RecordRequest ::
  "(string \<Rightarrow> string) \<Rightarrow> MCPMetrics option \<Rightarrow> string \<Rightarrow> MetricStatus \<Rightarrow> nat
     \<Rightarrow> string option
     \<Rightarrow> meter_log \<Rightarrow> meter_log" where
  "RecordRequest lower m mcpMethod status started err ms =
     (case m of
        None \<Rightarrow> ms
      | Some mm \<Rightarrow>
          (let attrs0 =
                 [(LabelMCPMethod, StringValue (boundString mcpMethod 64 ''unknown'')),
                  (LabelStatus, StringValue status)];
               attrs = (if err \<noteq> None
                        then attrs0 @ [(LabelErrorType, StringValue (getErrorType lower err))]
                        else attrs0);
               ms1 = ms @ [(RequestsTotal mm, Add 1 attrs)];
               ms2 = ms1 @ [(RequestLatency mm, RecordSince started attrs)]
           in if status = StatusError then ms2 @ [(RequestErrors mm, Add 1 attrs)] else ms2))"

definition RecordServerRegistration ::
  "MCPMetrics option \<Rightarrow> string \<Rightarrow> bool \<Rightarrow> meter_log \<Rightarrow> meter_log" where
  "RecordServerRegistration m serverName success ms =
     (case m of
        None \<Rightarrow> ms
      | Some mm \<Rightarrow>
          (let attrs =
                 [(LabelMCPServerName, StringValue (boundString serverName 64 ''unknown'')),
                  (''success'', BoolValue success)]
           in ms @ [(ServerRegistrations mm, Add 1 attrs)]))"

definition RecordServerDeregistration ::
  "MCPMetrics option \<Rightarrow> string \<Rightarrow> meter_log \<Rightarrow> meter_log" where
  "RecordServerDeregistration m serverName ms =
     (case m of
        None \<Rightarrow> ms
      | Some mm \<Rightarrow>
          (let attrs =
                 [(LabelMCPServerName, StringValue (boundString serverName 64 ''unknown''))]
           in ms @ [(ServerDeregistrations mm, Add 1 attrs)]))"

definition RecordServerTransport ::
  "MCPMetrics option \<Rightarrow> string \<Rightarrow> string \<Rightarrow> meter_log \<Rightarrow> meter_log" where
  "RecordServerTransport m serverName eventType ms =
     (case m of
        None \<Rightarrow> ms
      | Some mm \<Rightarrow>
          (let attrs =
                 [(LabelMCPServerName, StringValue (boundString serverName 64 ''unknown'')),
                  (LabelEventType, StringValue eventType)]
           in ms @ [(ServerTransport mm, Add 1 attrs)]))"

definition RecordToolAvailability ::
  "MCPMetrics option \<Rightarrow> string \<Rightarrow> bool \<Rightarrow> meter_log \<Rightarrow> meter_log" where
  "RecordToolAvailability m toolName available ms =
     (case m of
        None \<Rightarrow> ms
      | Some mm \<Rightarrow>
          (let attrs = [(LabelToolName, StringValue (boundString toolName 64 ''unknown''))];
               v = (if available then 1 else 0)
           in ms @ [(ToolAvailability mm, Add v attrs)]))"

definition RecordToolDiscovery ::
  "MCPMetrics option \<Rightarrow> string \<Rightarrow> meter_log \<Rightarrow> meter_log" where
  "RecordToolDiscovery m toolName ms =
     (case m of
        None \<Rightarrow> ms
      | Some mm \<Rightarrow>
          (let attrs = [(LabelToolName, StringValue (boundString toolName 64 ''unknown''))]
           in ms @ [(ToolDiscovery mm, Add 1 attrs)]))"

definition RecordEnhancedError ::
  "MCPMetrics option \<Rightarrow> string \<Rightarrow> meter_log \<Rightarrow> meter_log" where
  "RecordEnhancedError m errorType ms =
     (case m of
        None \<Rightarrow> ms
      | Some mm \<Rightarrow>
          (let attrs = [(LabelErrorType, StringValue errorType)]
           in ms @ [(ErrorsByType mm, Add 1 attrs)]))"


section \<open>HTTP handlers (package api)\<close>

text \<open>
  A handler reads its request, calls one method of \<open>s.mcpService\<close>, records metrics when
  \<open>s.metrics\<close> is not nil, and writes one JSON response. The service is a parameter of
  each handler: a function on the service's state \<open>'st\<close>. A Go \<open>error\<close> is a value of a
  type \<open>'e\<close> with its method \<open>Error :: 'e \<Rightarrow> string\<close>. A handler returns its response, the
  service's state after the call and the measurements recorded. A handler that records
  requests takes the parameter \<open>lower\<close> of \<open>getErrorType\<close> and passes it on.
\<close>

definition StatusOK :: nat where "StatusOK = 200"
definition StatusCreated :: nat where "StatusCreated = 201"
definition StatusBadRequest :: nat where "StatusBadRequest = 400"
definition StatusInternalServerError :: nat where "StatusInternalServerError = 500"

text \<open>
  The values \<open>encoding/json\<close> decodes into a Go \<open>any\<close>: nil, bool, float64, string,
  \<open>[]any\<close> and \<open>map[string]any\<close> (the nested object as its key/value pairs).
\<close>

datatype any =
    AnyNil
  | AnyBool bool
  | AnyFloat64 rat
  | AnyString string
  | AnySlice "any list"
  | AnyMap "(string \<times> any) list"

text \<open>
  The body a handler writes with \<open>c.JSON\<close>: \<open>gin.H{"error": msg}\<close>,
  \<open>gin.H{"enabled": names}\<close>, \<open>gin.H{"disabled": names}\<close>, or a value of the service.
\<close>

datatype 'a body =
    H_error string
  | H_enabled "string list"
  | H_disabled "string list"
  | JSON 'a

type_synonym 'a response = "nat \<times> 'a body"

subsection \<open>invokeToolHandler\<close>

text \<open>
  \<open>decoded\<close> is the outcome of \<open>json.NewDecoder(c.Request.Body).Decode(&args)\<close>: the
  decoder's error, or the argument map.
\<close>

definition invokeToolHandler ::
  "(string \<Rightarrow> string) \<Rightarrow> ('e \<Rightarrow> string)
     \<Rightarrow> (string \<Rightarrow> (string \<rightharpoonup> any) \<Rightarrow> 'st \<Rightarrow> ('e + 'r) \<times> 'st)
     \<Rightarrow> MCPMetrics option \<Rightarrow> nat \<Rightarrow> ('e + (string \<rightharpoonup> any)) \<Rightarrow> 'st \<Rightarrow> meter_log
     \<Rightarrow> 'r response \<times> 'st \<times> meter_log" where
  "invokeToolHandler lower Error InvokeTool metrics started decoded st ms =
     (case decoded of
        Inl err \<Rightarrow>
          ((StatusBadRequest, H_error (''failed to decode request body: '' @ Error err)), st,
           (if metrics \<noteq> None
            then RecordRequest lower metrics ''call_tool'' StatusError started (Some (Error err)) ms
            else ms))
      | Inr args \<Rightarrow>
          (case args ''name'' of
             None \<Rightarrow>
               ((StatusBadRequest, H_error ''missing 'name' field in request body''), st,
                (if metrics \<noteq> None
                 then RecordRequest lower metrics ''call_tool'' StatusError started None ms
                 else ms))
           | Some (AnyString name) \<Rightarrow>
               (let args' = args(''name'' := None);
                    (serverName, toolName, _) = splitServerToolName name;
                    (res, st') = InvokeTool name args' st
                in case res of
                     Inl err \<Rightarrow>
                       ((StatusInternalServerError,
                         H_error (''failed to invoke tool: '' @ Error err)), st',
                        (if metrics \<noteq> None
                         then RecordTool lower metrics serverName toolName StatusError started
                                (Some (Error err))
                                (RecordRequest lower metrics ''call_tool'' StatusError started
                                   (Some (Error err)) ms)
                         else ms))
                   | Inr resp \<Rightarrow>
                       ((StatusOK, JSON resp), st',
                        (if metrics \<noteq> None
                         then RecordTool lower metrics serverName toolName StatusSuccess started None
                                (RecordRequest lower metrics ''call_tool'' StatusSuccess started
                                   None ms)
                         else ms)))
           | Some _ \<Rightarrow>
               ((StatusBadRequest, H_error '''name' field must be a string''), st,
                (if metrics \<noteq> None
                 then RecordRequest lower metrics ''call_tool'' StatusError started None ms
                 else ms))))"

subsection \<open>enableToolsHandler and disableToolsHandler\<close>

text \<open>
  \<open>entity\<close> is \<open>c.Query("entity")\<close>, the empty string when the parameter is absent. These
  two handlers write only \<open>gin.H\<close> bodies, so the type of service values in their
  response is \<^typ>\<open>unit\<close>.
\<close>

definition enableToolsHandler ::
  "(string \<Rightarrow> string) \<Rightarrow> ('e \<Rightarrow> string)
     \<Rightarrow> (string \<Rightarrow> 'st \<Rightarrow> ('e + string list) \<times> 'st)
     \<Rightarrow> MCPMetrics option \<Rightarrow> nat \<Rightarrow> string \<Rightarrow> 'st \<Rightarrow> meter_log
     \<Rightarrow> unit response \<times> 'st \<times> meter_log" where
  "enableToolsHandler lower Error EnableTools metrics started entity st ms =
     (if entity = [] then
        ((StatusBadRequest, H_error ''missing 'entity' query parameter''), st,
         (if metrics \<noteq> None
          then RecordRequest lower metrics ''enable_tools'' StatusError started None ms
          else ms))
      else
        (let (res, st') = EnableTools entity st
         in case res of
              Inl err \<Rightarrow>
                ((StatusInternalServerError,
                  H_error (''failed to enable tool(s): '' @ Error err)), st',
                 (if metrics \<noteq> None
                  then RecordEnhancedError metrics ErrorTypeValidation
                         (RecordRequest lower metrics ''enable_tools'' StatusError started
                            (Some (Error err)) ms)
                  else ms))
            | Inr enabledTools \<Rightarrow>
                ((StatusOK, H_enabled enabledTools), st',
                 (if metrics \<noteq> None
                  then foldl (\<lambda>acc toolName. RecordToolAvailability metrics toolName True acc)
                         (RecordRequest lower metrics ''enable_tools'' StatusSuccess started None ms)
                         enabledTools
                  else ms))))"

definition disableToolsHandler ::
  "(string \<Rightarrow> string) \<Rightarrow> ('e \<Rightarrow> string)
     \<Rightarrow> (string \<Rightarrow> 'st \<Rightarrow> ('e + string list) \<times> 'st)
     \<Rightarrow> MCPMetrics option \<Rightarrow> nat \<Rightarrow> string \<Rightarrow> 'st \<Rightarrow> meter_log
     \<Rightarrow> unit response \<times> 'st \<times> meter_log" where
  "disableToolsHandler lower Error DisableTools metrics started entity st ms =
     (if entity = [] then
        ((StatusBadRequest, H_error ''missing 'entity' query parameter''), st,
         (if metrics \<noteq> None
          then RecordRequest lower metrics ''disable_tools'' StatusError started None ms
          else ms))
      else
        (let (res, st') = DisableTools entity st
         in case res of
              Inl err \<Rightarrow>
                ((StatusInternalServerError,
                  H_error (''failed to disable tool(s): '' @ Error err)), st',
                 (if metrics \<noteq> None
                  then RecordEnhancedError metrics ErrorTypeValidation
                         (RecordRequest lower metrics ''disable_tools'' StatusError started
                            (Some (Error err)) ms)
                  else ms))
            | Inr disabledTools \<Rightarrow>
                ((StatusOK, H_disabled disabledTools), st',
                 (if metrics \<noteq> None
                  then foldl (\<lambda>acc toolName. RecordToolAvailability metrics toolName False acc)
                         (RecordRequest lower metrics ''disable_tools'' StatusSuccess started None ms)
                         disabledTools
                  else ms))))"

subsection \<open>getToolHandler\<close>

text \<open>\<open>toolName\<close> is \<open>c.Query("name")\<close>. \<open>GetTool\<close> only reads the service's state.\<close>

definition getToolHandler ::
  "(string \<Rightarrow> string) \<Rightarrow> ('e \<Rightarrow> string) \<Rightarrow> (string \<Rightarrow> 'st \<Rightarrow> 'e + 'r)
     \<Rightarrow> MCPMetrics option \<Rightarrow> nat \<Rightarrow> string \<Rightarrow> 'st \<Rightarrow> meter_log
     \<Rightarrow> 'r response \<times> meter_log" where
  "getToolHandler lower Error GetTool metrics started toolName st ms =
     (if toolName = [] then
        ((StatusBadRequest, H_error ''missing 'name' query parameter''),
         (if metrics \<noteq> None
          then RecordRequest lower metrics ''get_tool'' StatusError started None ms
          else ms))
      else
        (case GetTool toolName st of
           Inl err \<Rightarrow>
             ((StatusInternalServerError, H_error (Error err)),
              (if metrics \<noteq> None
               then RecordRequest lower metrics ''get_tool'' StatusError started (Some (Error err)) ms
               else ms))
         | Inr tool \<Rightarrow>
             ((StatusOK, JSON tool),
              (if metrics \<noteq> None
               then RecordRequest lower metrics ''get_tool'' StatusSuccess started None ms
               else ms))))"


subsection \<open>registerServerHandler (internal/api/mcp\_servers.go)\<close>

text \<open>
  Modelled from the spec: the declarations of packages \<open>types\<close> and \<open>model\<close> are not part
  of the sources at hand. The transport kind is one of the two kinds of the spec's data
  model; a server definition has the fields the handlers read (name, transport,
  description) and its transport-specific configuration (subprocess: command, argument
  list, environment; streaming HTTP: URL, bearer token); the registration input has the
  fields \<open>registerServerHandler\<close> reads.
\<close>

datatype McpServerTransport = TransportStreamableHTTP | TransportStdio

datatype ServerConfig =
    StdioConfig string "string list" "(string \<times> string) list"
  | StreamableHTTPConfig string string

record McpServer =
  Name :: string
  Description :: string
  Transport :: McpServerTransport
  Config :: ServerConfig

record RegisterServerInput =
  input_Name :: string
  input_Transport :: string
  input_Description :: string
  input_URL :: string
  input_BearerToken :: string
  input_Command :: string
  input_Args :: "string list"
  input_Env :: "(string \<times> string) list"

text \<open>
  \<open>bound\<close> is the outcome of \<open>c.ShouldBindJSON(&input)\<close>. \<open>types.ValidateTransport\<close>,
  \<open>model.NewStreamableHTTPServer\<close> and \<open>model.NewStdioServer\<close> are parameters, as is
  the service's \<open>RegisterMcpServer\<close>, which returns its error (nil is \<open>None\<close>).
\<close>

definition registerServerHandler ::
  "('e \<Rightarrow> string) \<Rightarrow> (string \<Rightarrow> 'e + McpServerTransport)
     \<Rightarrow> (string \<Rightarrow> string \<Rightarrow> string \<Rightarrow> string \<Rightarrow> 'e + McpServer)
     \<Rightarrow> (string \<Rightarrow> string \<Rightarrow> string \<Rightarrow> string list \<Rightarrow> (string \<times> string) list \<Rightarrow> 'e + McpServer)
     \<Rightarrow> (McpServer \<Rightarrow> 'st \<Rightarrow> 'e option \<times> 'st)
     \<Rightarrow> MCPMetrics option \<Rightarrow> ('e + RegisterServerInput) \<Rightarrow> 'st \<Rightarrow> meter_log
     \<Rightarrow> McpServer response \<times> 'st \<times> meter_log" where
  "registerServerHandler Error ValidateTransport NewStreamableHTTPServer NewStdioServer
       RegisterMcpServer metrics bound st ms =
     (let validation =
            (if metrics \<noteq> None then RecordEnhancedError metrics ErrorTypeValidation ms else ms)
      in case bound of
           Inl err \<Rightarrow> ((StatusBadRequest, H_error (Error err)), st, validation)
         | Inr input \<Rightarrow>
             (case ValidateTransport (input_Transport input) of
                Inl err \<Rightarrow> ((StatusBadRequest, H_error (Error err)), st, validation)
              | Inr transport \<Rightarrow>
                  (let created =
                         (if transport = TransportStreamableHTTP then
                            (case NewStreamableHTTPServer (input_Name input)
                                    (input_Description input) (input_URL input)
                                    (input_BearerToken input) of
                               Inl err \<Rightarrow>
                                 Inl (''Error creating streamable http server: '' @ Error err)
                             | Inr server \<Rightarrow> Inr server)
                          else
                            (case NewStdioServer (input_Name input) (input_Description input)
                                    (input_Command input) (input_Args input)
                                    (input_Env input) of
                               Inl err \<Rightarrow> Inl (''Error creating stdio server: '' @ Error err)
                             | Inr server \<Rightarrow> Inr server))
                   in case created of
                        Inl msg \<Rightarrow> ((StatusBadRequest, H_error msg), st, validation)
                      | Inr server \<Rightarrow>
                          (case RegisterMcpServer server st of
                             (Some err, st') \<Rightarrow>
                               ((StatusInternalServerError, H_error (Error err)), st',
                                (if metrics \<noteq> None
                                 then RecordEnhancedError metrics ErrorTypeRegistration ms
                                 else ms))
                           | (None, st') \<Rightarrow>
                               ((StatusCreated, JSON server), st',
                                (if metrics \<noteq> None
                                 then RecordServerTransport metrics (Name server)
                                        EventTypeRegistered
                                        (RecordServerRegistration metrics (Name server) True ms)
                                 else ms))))))"


section \<open>The service behind the handlers\<close>

text \<open>
  The methods of \<open>s.mcpService\<close> (\<open>InvokeTool\<close>, \<open>RegisterMcpServer\<close>, \<open>EnableTools\<close>,
  \<open>DisableTools\<close>, \<open>GetTool\<close>) are called by the handlers above; their bodies are not part
  of the sources at hand. Each definition of this section is modelled from the spec and
  says which of its sentences it follows.
\<close>

text \<open>
  Modelled from the spec: the error type of the service is missing. Section 7 gives the
  kinds of failure; a failure carries its kind and a message (the upstream-provided
  message when there is one, the name that did not resolve otherwise).
\<close>

datatype err_kind = Validation | NotFound | Disabled | Connection | Timeout | Permission | ToolError

datatype failure = Failure err_kind string

text \<open>
  Modelled from the spec: \<open>model.Tool\<close> is missing. Section 3: a Tool has an owning
  server, a local name, an opaque input schema and an enabled flag.
\<close>

record Tool =
  ownerName :: string
  localName :: string
  inputSchema :: string
  enabled :: bool

text \<open>
  Modelled from the spec: the qualified name of section 3,
  \<open><serverName><separator><localToolName>\<close>.
\<close>

definition qualifiedName :: "Tool \<Rightarrow> string" where
  "qualifiedName t = ownerName t @ serverToolNameSep @ localName t"

text \<open>
  Modelled from the spec: the Transport Client of section 4.1 is missing. It presents two
  capabilities for an upstream server: list its tools (local name and input schema of
  each) and invoke a tool by local name with arguments; either may fail.
\<close>

record 'r TransportClient =
  listTools :: "McpServer \<Rightarrow> failure + (string \<times> string) list"
  callTool :: "McpServer \<Rightarrow> string \<Rightarrow> (string \<rightharpoonup> any) \<Rightarrow> failure + 'r"

text \<open>
  Modelled from the spec: the state of the service is missing. It holds the Server
  Registry and the Tool Catalog of section 2, and, to observe what reaches the upstream
  servers, every invocation forwarded to a Transport Client so far (server name, local
  tool name, arguments).
\<close>

record service =
  servers :: "McpServer list"
  catalog :: "Tool list"
  upstreamCalls :: "(string \<times> string \<times> (string \<rightharpoonup> any)) list"

text \<open>
  Modelled from the spec: the lookup of a server definition by its name in the Server
  Registry (section 3: names are unique), which the missing service methods rely on.
\<close>

definition findServer :: "string \<Rightarrow> service \<Rightarrow> McpServer option" where
  "findServer n s = find (\<lambda>sv. Name sv = n) (servers s)"

text \<open>
  Modelled from the spec: \<open>GetTool\<close> is missing. Section 4.3, \<open>Get(qualifiedName)\<close>: exact
  lookup; fails with not-found if absent.
\<close>

definition GetTool :: "string \<Rightarrow> service \<Rightarrow> failure + Tool" where
  "GetTool q s =
     (case find (\<lambda>t. qualifiedName t = q) (catalog s) of
        None \<Rightarrow> Inl (Failure NotFound q)
      | Some t \<Rightarrow> Inr t)"

text \<open>
  Modelled from the spec: \<open>InvokeTool\<close> is missing. Section 4.4, \<open>Invoke\<close>: (1) split the
  qualified name on the separator, failing "with a not-found/validation error" if it is
  absent (the kind taken here is validation); (2) look the Tool up, failing with
  not-found if absent and with a disabled-tool error if present but not enabled;
  (3) obtain the owning server's Transport Client; (4) forward the call and return the
  upstream result or its failure. A forwarded call is appended to \<open>upstreamCalls\<close>.
\<close>

definition InvokeTool ::
  "'r TransportClient \<Rightarrow> string \<Rightarrow> (string \<rightharpoonup> any) \<Rightarrow> service \<Rightarrow> (failure + 'r) \<times> service" where
  "InvokeTool client q args s =
     (let (serverName, toolName, found) = splitServerToolName q
      in if \<not> found then (Inl (Failure Validation q), s)
         else
           (case GetTool q s of
              Inl e \<Rightarrow> (Inl e, s)
            | Inr t \<Rightarrow>
                if \<not> enabled t then (Inl (Failure Disabled q), s)
                else
                  (case findServer (ownerName t) s of
                     None \<Rightarrow> (Inl (Failure NotFound (ownerName t)), s)
                   | Some sv \<Rightarrow>
                       (callTool client sv (localName t) args,
                        s\<lparr>upstreamCalls :=
                            upstreamCalls s @ [(Name sv, localName t, args)]\<rparr>))))"

text \<open>
  Modelled from the spec: the validation step of the missing \<open>RegisterMcpServer\<close>.
  Section 4.2: name uniqueness and transport-config completeness; section 3: the name
  is non-empty and unique, and the configuration variant matches the declared kind.
\<close>

definition validServerDef :: "McpServer \<Rightarrow> service \<Rightarrow> bool" where
  "validServerDef d s =
     (Name d \<noteq> [] \<and> findServer (Name d) s = None \<and>
      (case Config d of
         StdioConfig command _ _ \<Rightarrow> Transport d = TransportStdio \<and> command \<noteq> []
       | StreamableHTTPConfig url _ \<Rightarrow> Transport d = TransportStreamableHTTP \<and> url \<noteq> []))"

text \<open>
  Modelled from the spec: the Catalog entry of a discovered tool (section 4.2: enabled
  by default), part of the missing \<open>RegisterMcpServer\<close>.
\<close>

definition discoveredTool :: "McpServer \<Rightarrow> string \<times> string \<Rightarrow> Tool" where
  "discoveredTool d decl =
     \<lparr>ownerName = Name d, localName = fst decl, inputSchema = snd decl, enabled = True\<rparr>"

text \<open>
  Modelled from the spec: \<open>RegisterMcpServer\<close> is missing. Section 4.2, \<open>Register(def)\<close>:
  validates the definition; calls the client's list-tools capability; on any discovery
  failure the registration fails and nothing is persisted; a local name that contains
  the separator or occurs twice in the listing is a validation failure (sections 3 and
  4.3); on success the definition is persisted and the Catalog receives the discovered
  tools, enabled.
\<close>

definition RegisterMcpServer ::
  "'r TransportClient \<Rightarrow> McpServer \<Rightarrow> service \<Rightarrow> failure option \<times> service" where
  "RegisterMcpServer client d s =
     (if \<not> validServerDef d s then (Some (Failure Validation (Name d)), s)
      else
        (case listTools client d of
           Inl e \<Rightarrow> (Some e, s)
         | Inr decls \<Rightarrow>
             if \<not> distinct (map fst decls)
                \<or> list_ex (\<lambda>decl. Contains (fst decl) serverToolNameSep) decls
             then (Some (Failure Validation (Name d)), s)
             else
               (None,
                s\<lparr>servers := servers s @ [d],
                  catalog := catalog s @ map (discoveredTool d) decls\<rparr>)))"

text \<open>
  Modelled from the spec: whether a Tool is denoted by an entity reference, part of the
  missing \<open>EnableTools\<close> and \<open>DisableTools\<close>. Section 3: a reference that matches a
  known server name denotes all of that server's Tools, otherwise it is taken as a
  qualified tool name.
\<close>

definition matchesEntity :: "string \<Rightarrow> service \<Rightarrow> Tool \<Rightarrow> bool" where
  "matchesEntity entity s t =
     (if findServer entity s \<noteq> None then ownerName t = entity else qualifiedName t = entity)"

text \<open>
  Modelled from the spec: the Tools an entity reference resolves to (section 3), part of
  the missing \<open>EnableTools\<close> and \<open>DisableTools\<close>.
\<close>

definition resolveEntity :: "string \<Rightarrow> service \<Rightarrow> Tool list" where
  "resolveEntity entity s = filter (matchesEntity entity s) (catalog s)"

text \<open>
  Modelled from the spec: \<open>SetEnabled(entityRef, enabled)\<close> of section 4.3, the common
  body of the missing \<open>EnableTools\<close> and \<open>DisableTools\<close>: it flips the enabled flag of
  every matching Tool and returns the affected qualified names; resolving to zero tools
  is a validation failure.
\<close>

definition SetEnabled :: "string \<Rightarrow> bool \<Rightarrow> service \<Rightarrow> (failure + string list) \<times> service" where
  "SetEnabled entity en s =
     (let affected = resolveEntity entity s
      in if affected = [] then (Inl (Failure Validation entity), s)
         else
           (Inr (map qualifiedName affected),
            s\<lparr>catalog :=
                map (\<lambda>t. if matchesEntity entity s t then t\<lparr>enabled := en\<rparr> else t)
                  (catalog s)\<rparr>))"

text \<open>
  Modelled from the spec: the missing \<open>EnableTools\<close>, \<open>SetEnabled\<close> with the flag true
  (section 6, enable/disable).
\<close>

definition EnableTools :: "string \<Rightarrow> service \<Rightarrow> (failure + string list) \<times> service" where
  "EnableTools entity s = SetEnabled entity True s"

text \<open>
  Modelled from the spec: the missing \<open>DisableTools\<close>, \<open>SetEnabled\<close> with the flag false.
\<close>

definition DisableTools :: "string \<Rightarrow> service \<Rightarrow> (failure + string list) \<times> service" where
  "DisableTools entity s = SetEnabled entity False s"


section \<open>Predicates and concrete values used in the statements\<close>

text \<open>The attributes a measurement was made with.\<close>

fun attrsOf :: "measurement \<Rightarrow> KeyValue list" where
  "attrsOf (Add _ attrs) = attrs"
| "attrsOf (RecordSince _ attrs) = attrs"

text \<open>
  An attribute is a bounded label when, if its key is the server-name or the tool-name
  label, its value is a non-empty string of at most 64 bytes; a sequence of measurements
  has bounded labels when every attribute of every measurement is one.
\<close>

definition boundedLabel :: "KeyValue \<Rightarrow> bool" where
  "boundedLabel kv =
     (if fst kv = LabelMCPServerName \<or> fst kv = LabelToolName
      then (case snd kv of StringValue v \<Rightarrow> v \<noteq> [] \<and> length v \<le> 64 | BoolValue _ \<Rightarrow> False)
      else True)"

definition labelsBounded :: "meter_log \<Rightarrow> bool" where
  "labelsBounded ms = list_all (\<lambda>entry. list_all boundedLabel (attrsOf (snd entry))) ms"

text \<open>
  The kinds of the spec's error taxonomy (section 7) as label texts, the two-word kinds
  in either spelling.
\<close>

definition specTaxonomy :: "string set" where
  "specTaxonomy =
     {''validation'', ''not-found'', ''not_found'', ''disabled'', ''connection'',
      ''timeout'', ''permission'', ''tool-error'', ''tool_error''}"

text \<open>
  The concrete scenario of the spec's section 8: the server "calc" (subprocess, command
  \<open>calc-tool\<close>) whose discovery returns the local tool "add"; a service that has "calc"
  registered with its tool enabled or disabled; a service with nothing registered; and
  a client whose upstream is unreachable.
\<close>

definition calcServer :: McpServer where
  "calcServer =
     \<lparr>Name = ''calc'', Description = ''calculator'', Transport = TransportStdio,
      Config = StdioConfig ''calc-tool'' [] []\<rparr>"

definition calcAdd :: "bool \<Rightarrow> Tool" where
  "calcAdd en =
     \<lparr>ownerName = ''calc'', localName = ''add'', inputSchema = ''{}'', enabled = en\<rparr>"

definition calcService :: "bool \<Rightarrow> service" where
  "calcService en = \<lparr>servers = [calcServer], catalog = [calcAdd en], upstreamCalls = []\<rparr>"

definition emptyService :: service where
  "emptyService = \<lparr>servers = [], catalog = [], upstreamCalls = []\<rparr>"

definition calcClient :: "any TransportClient" where
  "calcClient =
     \<lparr>listTools = (\<lambda>_. Inr [(''add'', ''{}'')]),
      callTool = (\<lambda>_ _ _. Inr (AnyFloat64 5))\<rparr>"

definition unreachableClient :: "any TransportClient" where
  "unreachableClient =
     \<lparr>listTools = (\<lambda>_. Inl (Failure Connection ''connection refused'')),
      callTool = (\<lambda>_ _ _. Inl (Failure Connection ''connection refused''))\<rparr>"

text \<open>
  A concrete function for the parameter \<open>lower\<close> where a statement is evaluated. The
  evaluated messages are ASCII text, on which \<open>ToLower\<close> does not call it.
\<close>

definition keepNonASCII :: "string \<Rightarrow> string" where
  "keepNonASCII s = s"

text \<open>How a failure of the service prints: its message.\<close>

fun failureText :: "failure \<Rightarrow> string" where
  "failureText (Failure _ msg) = msg"


section \<open>Facts about the string functions\<close>

lemma HasPrefix_iff_prefix: "HasPrefix s p \<longleftrightarrow> prefix p s"
  unfolding HasPrefix_def by (metis append_eq_conv_conj prefix_def append_take_drop_id)

lemma Index_None_iff: "Index s sub = None \<longleftrightarrow> \<not> sublist sub s"
  by (induction s) (auto simp: HasPrefix_iff_prefix sublist_Cons_right)

text \<open>\<open>Contains\<close> is the contiguous-sublist relation of the list library.\<close>

lemma Contains_iff_sublist: "Contains s sub \<longleftrightarrow> sublist sub s"
  by (simp add: Contains_def Index_None_iff)

lemma Index_HasPrefix: "HasPrefix s sub \<Longrightarrow> Index s sub = Some 0"
  by (cases s) (auto simp: HasPrefix_def)

lemma Index_append_first:
  assumes "\<forall>j<length s. \<not> HasPrefix (drop j (s @ sep @ l)) sep"
  shows "Index (s @ sep @ l) sep = Some (length s)"
  using assms
proof (induction s)
  case Nil
  then show ?case by (simp add: Index_HasPrefix HasPrefix_def)
next
  case (Cons c cs)
  from Cons.prems have h0: "\<not> HasPrefix ((c # cs) @ sep @ l) sep" by force
  from Cons.prems have "\<forall>j<length cs. \<not> HasPrefix (drop j (cs @ sep @ l)) sep" by force
  from Cons.IH[OF this] show ?case using h0 by simp
qed

text \<open>
  No instance of the separator starts inside a server name that neither contains it nor
  ends with a colon.
\<close>

lemma no_early_match:
  assumes "\<not> Contains s ''::''" "s = [] \<or> last s \<noteq> CHR '':''" "j < length s"
  shows "\<not> HasPrefix (drop j (s @ ''::'' @ l)) ''::''"
proof
  assume h: "HasPrefix (drop j (s @ ''::'' @ l)) ''::''"
  from assms(3) have d: "drop j (s @ ''::'' @ l) = drop j s @ ''::'' @ l" by simp
  from assms(3) obtain c cs where cs: "drop j s = c # cs" by (cases "drop j s") auto
  show False
  proof (cases cs)
    case Nil
    with cs have "last s = c"
      by (metis append_take_drop_id last_appendR last_snoc list.distinct(1) append_Nil)
    moreover from h d cs Nil have "c = CHR '':''" by (simp add: HasPrefix_def)
    ultimately show False using assms(2,3) by auto
  next
    case (Cons c' cs')
    with h d cs have "prefix ''::'' (drop j s)" by (simp add: HasPrefix_def)
    then have "sublist ''::'' s"
      by (meson prefix_imp_sublist sublist_drop sublist_order.order_trans)
    with assms(1) show False by (simp add: Contains_iff_sublist)
  qed
qed

lemma split_qualified:
  assumes "\<not> Contains s serverToolNameSep" "s = [] \<or> last s \<noteq> CHR '':''"
  shows "splitServerToolName (s @ serverToolNameSep @ l) = (s, l, True)"
proof -
  have "Index (s @ ''::'' @ l) ''::'' = Some (length s)"
    by (rule Index_append_first)
      (use no_early_match[OF assms[unfolded serverToolNameSep_def]] in blast)
  then show ?thesis by (simp add: splitServerToolName_def serverToolNameSep_def Cut_def)
qed

lemma split_absent:
  "\<not> Contains n serverToolNameSep \<Longrightarrow> splitServerToolName n = (n, [], False)"
  by (simp add: splitServerToolName_def Cut_def Contains_def)

lemma split_found_iff: "snd (snd (splitServerToolName n)) \<longleftrightarrow> Contains n serverToolNameSep"
  by (simp add: splitServerToolName_def Cut_def Contains_def split: option.splits)

lemma Contains_qualifiedName: "Contains (qualifiedName t) serverToolNameSep"
  by (simp add: Contains_iff_sublist sublist_def qualifiedName_def) blast


section \<open>Splitting qualified names\<close>

text \<open>
  Claim C3, as the spec states it, fails: a server name that ends with a colon contains
  no separator, yet the split of \<open>"a:" ++ "::" ++ "b"\<close> is cut at the first instance of
  \<open>"::"\<close>, one byte early, and returns \<open>("a", ":b", true)\<close>.
\<close>

theorem splitServerToolName_trailing_colon_counterexample:
  "\<not> Contains ''a:'' serverToolNameSep
   \<and> splitServerToolName (''a:'' @ serverToolNameSep @ ''b'') = (''a'', '':b'', True)
   \<and> splitServerToolName (''a:'' @ serverToolNameSep @ ''b'') \<noteq> (''a:'', ''b'', True)"
  by (simp add: Contains_def HasPrefix_def splitServerToolName_def serverToolNameSep_def Cut_def)

text \<open>
  Claim C3, amended: for every server name \<open>s\<close> that does not contain \<open>"::"\<close> and does
  not end with a colon, and every local name \<open>l\<close>, \<open>splitServerToolName\<close> of
  \<open>s ++ "::" ++ l\<close> returns \<open>(s, l, true)\<close>; and for every string \<open>n\<close> that does not
  contain \<open>"::"\<close> it returns \<open>(n, "", false)\<close>, which \<open>InvokeTool\<close> reports as a
  validation error without changing the service's state.
\<close>

theorem splitServerToolName_inverts_qualifiedName:
  "(\<not> Contains s serverToolNameSep \<and> (s = [] \<or> last s \<noteq> CHR '':'')
      \<longrightarrow> splitServerToolName (s @ serverToolNameSep @ l) = (s, l, True))
   \<and> (\<not> Contains n serverToolNameSep
      \<longrightarrow> splitServerToolName n = (n, [], False)
          \<and> InvokeTool client n args st = (Inl (Failure Validation n), st))"
proof (intro conjI impI)
  assume "\<not> Contains s serverToolNameSep \<and> (s = [] \<or> last s \<noteq> CHR '':'')"
  then show "splitServerToolName (s @ serverToolNameSep @ l) = (s, l, True)"
    by (simp add: split_qualified)
next
  assume "\<not> Contains n serverToolNameSep"
  then have cut: "splitServerToolName n = (n, [], False)"
    by (rule split_absent)
  then show "splitServerToolName n = (n, [], False)"
    by simp
  from cut show "InvokeTool client n args st = (Inl (Failure Validation n), st)"
    by (simp add: InvokeTool_def)
qed

theorem splitServerToolName_inverts_qualifiedName_witness:
  "\<not> Contains ''calc'' serverToolNameSep
   \<and> last ''calc'' \<noteq> CHR '':''
   \<and> splitServerToolName (''calc'' @ serverToolNameSep @ ''add'') = (''calc'', ''add'', True)
   \<and> \<not> Contains ''calc:add'' serverToolNameSep
   \<and> splitServerToolName ''calc:add'' = (''calc:add'', [], False)
   \<and> InvokeTool calcClient ''calc:add'' Map.empty (calcService True)
       = (Inl (Failure Validation ''calc:add''), calcService True)"
proof -
  have a: "\<not> Contains ''calc'' serverToolNameSep \<and> last ''calc'' \<noteq> CHR '':''"
    by (simp add: Contains_def HasPrefix_def serverToolNameSep_def)
  have b: "\<not> Contains ''calc:add'' serverToolNameSep"
    by (simp add: Contains_def HasPrefix_def serverToolNameSep_def)
  from a b
    splitServerToolName_inverts_qualifiedName
      [of "''calc''" "''add''" "''calc:add''" calcClient Map.empty "calcService True"]
  show ?thesis by simp
qed


section \<open>Metric labels\<close>

lemma boundString_64:
  "boundString s 64 ''unknown'' \<noteq> [] \<and> length (boundString s 64 ''unknown'') \<le> 64"
  by (simp add: boundString_def)

lemma boundedLabel_bound [simp]: "boundedLabel (k, StringValue (boundString s 64 ''unknown''))"
  using boundString_64[of s] by (simp add: boundedLabel_def)

lemma boundedLabel_other [simp]:
  "k \<noteq> LabelMCPServerName \<Longrightarrow> k \<noteq> LabelToolName \<Longrightarrow> boundedLabel (k, v)"
  by (simp add: boundedLabel_def)

lemma label_keys_distinct [simp]:
  "LabelStatus \<noteq> LabelMCPServerName" "LabelStatus \<noteq> LabelToolName"
  "LabelErrorType \<noteq> LabelMCPServerName" "LabelErrorType \<noteq> LabelToolName"
  "LabelEventType \<noteq> LabelMCPServerName" "LabelEventType \<noteq> LabelToolName"
  "LabelMCPMethod \<noteq> LabelMCPServerName" "LabelMCPMethod \<noteq> LabelToolName"
  "''success'' \<noteq> LabelMCPServerName" "''success'' \<noteq> LabelToolName"
  by (simp_all add: LabelStatus_def LabelMCPServerName_def LabelToolName_def LabelErrorType_def
      LabelEventType_def LabelMCPMethod_def)

lemma labelsBounded_append [simp]:
  "labelsBounded (ms @ ms') \<longleftrightarrow> labelsBounded ms \<and> labelsBounded ms'"
  by (simp add: labelsBounded_def)

lemma labelsBounded_Nil [simp]: "labelsBounded []"
  by (simp add: labelsBounded_def)

lemma labelsBounded_Cons [simp]:
  "labelsBounded (e # ms) \<longleftrightarrow> list_all boundedLabel (attrsOf (snd e)) \<and> labelsBounded ms"
  by (simp add: labelsBounded_def)

lemma RecordTool_bounded:
  "labelsBounded ms \<Longrightarrow> labelsBounded (RecordTool lower m srv tool status started err ms)"
  by (cases m) (simp_all add: RecordTool_def Let_def)

lemma RecordRequest_bounded:
  "labelsBounded ms \<Longrightarrow> labelsBounded (RecordRequest lower m method status started err ms)"
  by (cases m) (simp_all add: RecordRequest_def Let_def)

lemma RecordServerRegistration_bounded:
  "labelsBounded ms \<Longrightarrow> labelsBounded (RecordServerRegistration m srv success ms)"
  by (cases m) (simp_all add: RecordServerRegistration_def Let_def)

lemma RecordServerDeregistration_bounded:
  "labelsBounded ms \<Longrightarrow> labelsBounded (RecordServerDeregistration m srv ms)"
  by (cases m) (simp_all add: RecordServerDeregistration_def Let_def)

lemma RecordServerTransport_bounded:
  "labelsBounded ms \<Longrightarrow> labelsBounded (RecordServerTransport m srv event ms)"
  by (cases m) (simp_all add: RecordServerTransport_def Let_def)

lemma RecordToolAvailability_bounded:
  "labelsBounded ms \<Longrightarrow> labelsBounded (RecordToolAvailability m tool available ms)"
  by (cases m) (simp_all add: RecordToolAvailability_def Let_def)

lemma RecordToolDiscovery_bounded:
  "labelsBounded ms \<Longrightarrow> labelsBounded (RecordToolDiscovery m tool ms)"
  by (cases m) (simp_all add: RecordToolDiscovery_def Let_def)

text \<open>
  Claim C9: for every input string \<open>s\<close>, \<open>boundString(s, 64, "unknown")\<close> is a non-empty
  string of at most 64 bytes: the fallback when \<open>s\<close> is empty, the first 64 bytes of
  \<open>s\<close> when \<open>s\<close> is longer, \<open>s\<close> itself otherwise. Hence every recording method that
  emits a server-name or tool-name label keeps the measurements' labels bounded.
\<close>

theorem boundString_label_bounds:
  "boundString s 64 ''unknown'' \<noteq> []
   \<and> length (boundString s 64 ''unknown'') \<le> 64
   \<and> boundString s 64 ''unknown''
       = (if s = [] then ''unknown'' else if 64 < length s then take 64 s else s)
   \<and> (labelsBounded ms \<longrightarrow>
        labelsBounded (RecordTool lower m srv tool status started err ms)
        \<and> labelsBounded (RecordServerRegistration m srv success ms)
        \<and> labelsBounded (RecordServerDeregistration m srv ms)
        \<and> labelsBounded (RecordServerTransport m srv event ms)
        \<and> labelsBounded (RecordToolAvailability m tool available ms)
        \<and> labelsBounded (RecordToolDiscovery m tool ms))"
  by (simp add: boundString_def RecordTool_bounded RecordServerRegistration_bounded
      RecordServerDeregistration_bounded RecordServerTransport_bounded
      RecordToolAvailability_bounded RecordToolDiscovery_bounded)

theorem boundString_label_bounds_witness:
  "labelsBounded []
   \<and> boundString (replicate 70 (CHR ''x'')) 64 ''unknown'' = replicate 64 (CHR ''x'')
   \<and> RecordTool keepNonASCII (Some NewMCPMetrics) [] (replicate 70 (CHR ''x'')) StatusSuccess 0 None []
       = [(''mcpjungle_tool_invocations_total'',
           Add 1 [(''mcp_server_name'', StringValue ''unknown''),
                  (''tool_name'', StringValue (replicate 64 (CHR ''x''))),
                  (''status'', StringValue ''success'')]),
          (''mcpjungle_tool_latency_seconds'',
           RecordSince 0 [(''mcp_server_name'', StringValue ''unknown''),
                  (''tool_name'', StringValue (replicate 64 (CHR ''x''))),
                  (''status'', StringValue ''success'')])]
   \<and> labelsBounded
        (RecordTool keepNonASCII (Some NewMCPMetrics) [] (replicate 70 (CHR ''x'')) StatusSuccess 0 None [])"
proof -
  have h: "labelsBounded []" by (simp add: labelsBounded_def)
  have e: "RecordTool keepNonASCII (Some NewMCPMetrics) [] (replicate 70 (CHR ''x'')) StatusSuccess 0 None []
       = [(''mcpjungle_tool_invocations_total'',
           Add 1 [(''mcp_server_name'', StringValue ''unknown''),
                  (''tool_name'', StringValue (replicate 64 (CHR ''x''))),
                  (''status'', StringValue ''success'')]),
          (''mcpjungle_tool_latency_seconds'',
           RecordSince 0 [(''mcp_server_name'', StringValue ''unknown''),
                  (''tool_name'', StringValue (replicate 64 (CHR ''x''))),
                  (''status'', StringValue ''success'')])]"
    by (simp add: RecordTool_def Let_def NewMCPMetrics_def boundString_def StatusSuccess_def
        StatusError_def LabelMCPServerName_def LabelToolName_def LabelStatus_def)
  from boundString_label_bounds
         [where s = "replicate 70 (CHR ''x'')" and ms = "[]" and lower = keepNonASCII
            and m = "Some NewMCPMetrics" and srv = "[]" and tool = "replicate 70 (CHR ''x'')"
            and status = StatusSuccess and started = 0 and err = None]
       h e
  show ?thesis by simp
qed

text \<open>
  Claim C10: every recording method of \<open>MCPMetrics\<close> is a no-op when the receiver is
  nil: it returns, and the measurements are what they were.
\<close>

theorem record_methods_nil_receiver_noop:
  "RecordTool lower None srv tool status started err ms = ms
   \<and> RecordRequest lower None method status started err ms = ms
   \<and> RecordServerRegistration None srv success ms = ms
   \<and> RecordServerDeregistration None srv ms = ms
   \<and> RecordServerTransport None srv event ms = ms
   \<and> RecordToolAvailability None tool available ms = ms
   \<and> RecordToolDiscovery None tool ms = ms
   \<and> RecordEnhancedError None errorType ms = ms"
  by (simp add: RecordTool_def RecordRequest_def RecordServerRegistration_def
      RecordServerDeregistration_def RecordServerTransport_def RecordToolAvailability_def
      RecordToolDiscovery_def RecordEnhancedError_def)

text \<open>
  At a concrete call: with a nil receiver nothing is recorded, while the same call on
  the metrics of \<open>NewMCPMetrics\<close> records one measurement.
\<close>

theorem record_methods_nil_receiver_noop_witness:
  "RecordEnhancedError None ErrorTypeValidation [] = []
   \<and> RecordEnhancedError (Some NewMCPMetrics) ErrorTypeValidation []
       = [(''mcpjungle_errors_by_type_total'',
           Add 1 [(''error_type'', StringValue ''validation'')])]"
  using record_methods_nil_receiver_noop
      [where errorType = ErrorTypeValidation and ms = "[]" and lower = keepNonASCII]
  by (simp add: RecordEnhancedError_def NewMCPMetrics_def LabelErrorType_def
      ErrorTypeValidation_def)


section \<open>The error classifier\<close>

text \<open>On ASCII text \<open>ToLower\<close> lowers byte by byte, whatever \<open>lower\<close> is.\<close>

lemma map_toLowerByte_no_upper:
  "\<not> list_ex (\<lambda>c. 65 \<le> (of_char c :: nat) \<and> (of_char c :: nat) \<le> 90) s
   \<Longrightarrow> map toLowerByte s = s"
  by (induction s) (auto simp: toLowerByte_def)

lemma ToLower_ascii:
  "list_all (\<lambda>c. (of_char c :: nat) < 128) s \<Longrightarrow> ToLower lower s = map toLowerByte s"
  by (simp add: ToLower_def Let_def map_toLowerByte_no_upper)

text \<open>
  On any other text the library function decides: a message such as \<open>T\<close>, U+0130,
  \<open>MEOUT\<close> (bytes 54 c4 b0 4d 45 4f 55 54) is labelled \<open>timeout\<close> exactly when the
  library's lowering of it contains "timeout", as Go's does.
\<close>

lemma ToLower_non_ascii:
  "\<not> list_all (\<lambda>c. (of_char c :: nat) < 128) s \<Longrightarrow> ToLower lower s = lower s"
  by (simp add: ToLower_def Let_def)

lemma getErrorType_dotted_capital_I:
  assumes "lower [CHR ''T'', CHR 0xC4, CHR 0xB0, CHR ''M'', CHR ''E'', CHR ''O'', CHR ''U'', CHR ''T'']
           = ''timeout''"
  shows "getErrorType lower
           (Some [CHR ''T'', CHR 0xC4, CHR 0xB0, CHR ''M'', CHR ''E'', CHR ''O'', CHR ''U'', CHR ''T''])
         = ''timeout''"
proof -
  have "\<not> list_all (\<lambda>c. (of_char c :: nat) < 128)
            [CHR ''T'', CHR 0xC4, CHR 0xB0, CHR ''M'', CHR ''E'', CHR ''O'', CHR ''U'', CHR ''T'']"
    by simp
  then have "ToLower lower
               [CHR ''T'', CHR 0xC4, CHR 0xB0, CHR ''M'', CHR ''E'', CHR ''O'', CHR ''U'', CHR ''T'']
             = lower
               [CHR ''T'', CHR 0xC4, CHR 0xB0, CHR ''M'', CHR ''E'', CHR ''O'', CHR ''U'', CHR ''T'']"
    by (rule ToLower_non_ascii)
  with assms have "ToLower lower
               [CHR ''T'', CHR 0xC4, CHR 0xB0, CHR ''M'', CHR ''E'', CHR ''O'', CHR ''U'', CHR ''T'']
             = ''timeout''"
    by (rule trans[rotated])
  moreover have "Contains ''timeout'' ''timeout''"
    by (simp add: Contains_def HasPrefix_def)
  ultimately show ?thesis
    by (simp add: getErrorType_def Let_def ErrorTypeTimeout_def)
qed

text \<open>
  Claim C7, as the spec states it, fails: the classifier does not map every error to a
  kind of the spec's taxonomy. The error "unexpected EOF" is labelled \<open>unknown\<close>, which
  is none of validation, not-found, disabled, connection, timeout, permission and
  tool-error. (The message is ASCII text, so its label does not depend on \<open>lower\<close>.)
\<close>

theorem getErrorType_outside_taxonomy_counterexample:
  "getErrorType keepNonASCII (Some ''unexpected EOF'') = ''unknown'' \<and> ''unknown'' \<notin> specTaxonomy"
proof -
  have "getErrorType keepNonASCII (Some ''unexpected EOF'') = ''unknown''" by code_simp
  moreover have "''unknown'' \<notin> specTaxonomy" by (simp add: specTaxonomy_def)
  ultimately show ?thesis by simp
qed

text \<open>
  Claim C7, amended: the classifier maps every error to exactly one label of its own set
  \<open>none\<close>, \<open>timeout\<close>, \<open>connection\<close>, \<open>permission\<close>, \<open>not_found\<close>, \<open>invalid\<close>,
  \<open>cancelled\<close>, \<open>unknown\<close>. A nil error is \<open>none\<close>; an error is labelled by the first of
  the texts "timeout", "connection", "permission", "not found", "invalid", "cancelled"
  that \<open>strings.ToLower\<close> of its message contains, in this order of precedence, and
  \<open>unknown\<close> when it contains none; the kinds validation, disabled and tool-error are
  never produced. This holds whatever the library's lowering of non-ASCII text is; on an
  ASCII message the lowering moves \<open>A\<close> .. \<open>Z\<close> to \<open>a\<close> .. \<open>z\<close> and nothing else.
\<close>

theorem getErrorType_classification:
  "getErrorType lower None = ''none''
   \<and> getErrorType lower (Some msg) \<in> {''timeout'', ''connection'', ''permission'', ''not_found'',
         ''invalid'', ''cancelled'', ''unknown''}
   \<and> getErrorType lower err \<notin> {''validation'', ''disabled'', ''tool-error'', ''tool_error''}
   \<and> (Contains (ToLower lower msg) ''timeout'' \<longrightarrow> getErrorType lower (Some msg) = ''timeout'')
   \<and> (\<not> Contains (ToLower lower msg) ''timeout'' \<and> Contains (ToLower lower msg) ''connection''
        \<longrightarrow> getErrorType lower (Some msg) = ''connection'')
   \<and> (\<not> Contains (ToLower lower msg) ''timeout'' \<and> \<not> Contains (ToLower lower msg) ''connection''
        \<and> Contains (ToLower lower msg) ''permission''
        \<longrightarrow> getErrorType lower (Some msg) = ''permission'')
   \<and> (\<not> Contains (ToLower lower msg) ''timeout'' \<and> \<not> Contains (ToLower lower msg) ''connection''
        \<and> \<not> Contains (ToLower lower msg) ''permission'' \<and> Contains (ToLower lower msg) ''not found''
        \<longrightarrow> getErrorType lower (Some msg) = ''not_found'')
   \<and> (\<not> Contains (ToLower lower msg) ''timeout'' \<and> \<not> Contains (ToLower lower msg) ''connection''
        \<and> \<not> Contains (ToLower lower msg) ''permission'' \<and> \<not> Contains (ToLower lower msg) ''not found''
        \<and> Contains (ToLower lower msg) ''invalid''
        \<longrightarrow> getErrorType lower (Some msg) = ''invalid'')
   \<and> (\<not> Contains (ToLower lower msg) ''timeout'' \<and> \<not> Contains (ToLower lower msg) ''connection''
        \<and> \<not> Contains (ToLower lower msg) ''permission'' \<and> \<not> Contains (ToLower lower msg) ''not found''
        \<and> \<not> Contains (ToLower lower msg) ''invalid'' \<and> Contains (ToLower lower msg) ''cancelled''
        \<longrightarrow> getErrorType lower (Some msg) = ''cancelled'')
   \<and> (\<not> Contains (ToLower lower msg) ''timeout'' \<and> \<not> Contains (ToLower lower msg) ''connection''
        \<and> \<not> Contains (ToLower lower msg) ''permission'' \<and> \<not> Contains (ToLower lower msg) ''not found''
        \<and> \<not> Contains (ToLower lower msg) ''invalid'' \<and> \<not> Contains (ToLower lower msg) ''cancelled''
        \<longrightarrow> getErrorType lower (Some msg) = ''unknown'')
   \<and> (list_all (\<lambda>c. (of_char c :: nat) < 128) msg
        \<longrightarrow> ToLower lower msg = map toLowerByte msg)"
  by (cases err) (simp_all add: getErrorType_def Let_def ErrorTypeTimeout_def ErrorTypeConnection_def
      ErrorTypePermission_def ErrorTypeUnknown_def ToLower_ascii)

theorem getErrorType_classification_witness:
  "getErrorType keepNonASCII (Some ''dial tcp: Connection refused after TIMEOUT'') = ''timeout''
   \<and> getErrorType keepNonASCII (Some ''Connection refused: permission denied'') = ''connection''
   \<and> getErrorType keepNonASCII (Some ''Permission denied: tool not found'') = ''permission''
   \<and> getErrorType keepNonASCII (Some ''tool Not Found: invalid name'') = ''not_found''
   \<and> getErrorType keepNonASCII (Some ''Invalid request, cancelled'') = ''invalid''
   \<and> getErrorType keepNonASCII (Some ''context Cancelled'') = ''cancelled''
   \<and> getErrorType keepNonASCII (Some ''unexpected EOF'') = ''unknown''
   \<and> ToLower keepNonASCII ''unexpected EOF'' = ''unexpected eof''"
proof -
  have 1: "Contains (ToLower keepNonASCII ''dial tcp: Connection refused after TIMEOUT'') ''timeout''"
    by code_simp
  have 2: "\<not> Contains (ToLower keepNonASCII ''Connection refused: permission denied'') ''timeout''
        \<and> Contains (ToLower keepNonASCII ''Connection refused: permission denied'') ''connection''"
    by code_simp
  have 3: "\<not> Contains (ToLower keepNonASCII ''Permission denied: tool not found'') ''timeout''
        \<and> \<not> Contains (ToLower keepNonASCII ''Permission denied: tool not found'') ''connection''
        \<and> Contains (ToLower keepNonASCII ''Permission denied: tool not found'') ''permission''"
    by code_simp
  have 4: "\<not> Contains (ToLower keepNonASCII ''tool Not Found: invalid name'') ''timeout''
        \<and> \<not> Contains (ToLower keepNonASCII ''tool Not Found: invalid name'') ''connection''
        \<and> \<not> Contains (ToLower keepNonASCII ''tool Not Found: invalid name'') ''permission''
        \<and> Contains (ToLower keepNonASCII ''tool Not Found: invalid name'') ''not found''"
    by code_simp
  have 5: "\<not> Contains (ToLower keepNonASCII ''Invalid request, cancelled'') ''timeout''
        \<and> \<not> Contains (ToLower keepNonASCII ''Invalid request, cancelled'') ''connection''
        \<and> \<not> Contains (ToLower keepNonASCII ''Invalid request, cancelled'') ''permission''
        \<and> \<not> Contains (ToLower keepNonASCII ''Invalid request, cancelled'') ''not found''
        \<and> Contains (ToLower keepNonASCII ''Invalid request, cancelled'') ''invalid''"
    by code_simp
  have 6: "\<not> Contains (ToLower keepNonASCII ''context Cancelled'') ''timeout''
        \<and> \<not> Contains (ToLower keepNonASCII ''context Cancelled'') ''connection''
        \<and> \<not> Contains (ToLower keepNonASCII ''context Cancelled'') ''permission''
        \<and> \<not> Contains (ToLower keepNonASCII ''context Cancelled'') ''not found''
        \<and> \<not> Contains (ToLower keepNonASCII ''context Cancelled'') ''invalid''
        \<and> Contains (ToLower keepNonASCII ''context Cancelled'') ''cancelled''"
    by code_simp
  have 7: "\<not> Contains (ToLower keepNonASCII ''unexpected EOF'') ''timeout''
        \<and> \<not> Contains (ToLower keepNonASCII ''unexpected EOF'') ''connection''
        \<and> \<not> Contains (ToLower keepNonASCII ''unexpected EOF'') ''permission''
        \<and> \<not> Contains (ToLower keepNonASCII ''unexpected EOF'') ''not found''
        \<and> \<not> Contains (ToLower keepNonASCII ''unexpected EOF'') ''invalid''
        \<and> \<not> Contains (ToLower keepNonASCII ''unexpected EOF'') ''cancelled''"
    by code_simp
  have r1: "getErrorType keepNonASCII (Some ''dial tcp: Connection refused after TIMEOUT'') = ''timeout''"
    using 1 getErrorType_classification [where msg = "''dial tcp: Connection refused after TIMEOUT''" and err = None and lower = keepNonASCII] by simp
  have r2: "getErrorType keepNonASCII (Some ''Connection refused: permission denied'') = ''connection''"
    using 2 getErrorType_classification [where msg = "''Connection refused: permission denied''" and err = None and lower = keepNonASCII] by simp
  have r3: "getErrorType keepNonASCII (Some ''Permission denied: tool not found'') = ''permission''"
    using 3 getErrorType_classification [where msg = "''Permission denied: tool not found''" and err = None and lower = keepNonASCII] by simp
  have r4: "getErrorType keepNonASCII (Some ''tool Not Found: invalid name'') = ''not_found''"
    using 4 getErrorType_classification [where msg = "''tool Not Found: invalid name''" and err = None and lower = keepNonASCII] by simp
  have r5: "getErrorType keepNonASCII (Some ''Invalid request, cancelled'') = ''invalid''"
    using 5 getErrorType_classification [where msg = "''Invalid request, cancelled''" and err = None and lower = keepNonASCII] by simp
  have r6: "getErrorType keepNonASCII (Some ''context Cancelled'') = ''cancelled''"
    using 6 getErrorType_classification [where msg = "''context Cancelled''" and err = None and lower = keepNonASCII] by simp
  have r7: "getErrorType keepNonASCII (Some ''unexpected EOF'') = ''unknown''"
    using 7 getErrorType_classification [where msg = "''unexpected EOF''" and err = None and lower = keepNonASCII] by simp
  have 8: "list_all (\<lambda>c. (of_char c :: nat) < 128) ''unexpected EOF''"
    by code_simp
  have 9: "map toLowerByte ''unexpected EOF'' = ''unexpected eof''"
    by code_simp
  have r8: "ToLower keepNonASCII ''unexpected EOF'' = ''unexpected eof''"
    using 8 9 getErrorType_classification
                [where msg = "''unexpected EOF''" and err = None and lower = keepNonASCII]
    by simp
  from r1 r2 r3 r4 r5 r6 r7 r8 show ?thesis by simp
qed


section \<open>Facts about the service\<close>

lemma GetTool_Inr_qualifiedName: "GetTool q s = Inr t \<Longrightarrow> qualifiedName t = q \<and> t \<in> set (catalog s)"
  by (auto simp: GetTool_def find_Some_iff split: option.splits) 

lemma GetTool_absent: "q \<notin> qualifiedName ` set (catalog s) \<Longrightarrow> GetTool q s = Inl (Failure NotFound q)"
  by (auto simp: GetTool_def find_None_iff split: option.splits)

lemma find_distinct_key:
  "distinct (map f xs) \<Longrightarrow> x \<in> set xs \<Longrightarrow> find (\<lambda>y. f y = f x) xs = Some x"
  by (induction xs) (auto simp: image_iff)

lemma GetTool_present:
  "distinct (map qualifiedName (catalog s)) \<Longrightarrow> t \<in> set (catalog s) \<Longrightarrow> GetTool (qualifiedName t) s = Inr t"
  by (simp add: GetTool_def find_distinct_key)

lemma qualifiedName_nonempty: "qualifiedName t \<noteq> []"
  by (simp add: qualifiedName_def serverToolNameSep_def)

lemma split_GetTool_found:
  assumes "GetTool q s = Inr t"
  shows "\<exists>a b. splitServerToolName q = (a, b, True)"
proof -
  from assms have "qualifiedName t = q" by (simp add: GetTool_Inr_qualifiedName)
  then have "Contains q serverToolNameSep" using Contains_qualifiedName[of t] by simp
  then have "snd (snd (splitServerToolName q))" by (simp add: split_found_iff)
  then show ?thesis by (cases "splitServerToolName q") auto
qed

lemma InvokeTool_disabled:
  assumes "GetTool q s = Inr t" and "\<not> enabled t"
  shows "InvokeTool client q args s = (Inl (Failure Disabled q), s)"
proof -
  from split_GetTool_found[OF assms(1)] obtain a b where "splitServerToolName q = (a, b, True)" by blast
  with assms show ?thesis by (simp add: InvokeTool_def)
qed

lemma InvokeTool_enabled_reaches_client:
  assumes "GetTool q s = Inr t" and "enabled t" and "findServer (ownerName t) s = Some sv"
  shows "InvokeTool client q args s
         = (callTool client sv (localName t) args,
            s\<lparr>upstreamCalls := upstreamCalls s @ [(Name sv, localName t, args)]\<rparr>)"
proof -
  from split_GetTool_found[OF assms(1)] obtain a b where "splitServerToolName q = (a, b, True)" by blast
  with assms show ?thesis by (simp add: InvokeTool_def)
qed

lemma Register_discovery_failure:
  assumes "listTools client d = Inl e"
  shows "\<exists>err. RegisterMcpServer client d s = (Some err, s) \<and> (validServerDef d s \<longrightarrow> err = e)"
  using assms by (simp add: RegisterMcpServer_def)

lemma Register_success:
  assumes "validServerDef d s" "listTools client d = Inr decls" "distinct (map fst decls)"
    "\<not> list_ex (\<lambda>decl. Contains (fst decl) serverToolNameSep) decls"
  shows "RegisterMcpServer client d s
         = (None, s\<lparr>servers := servers s @ [d], catalog := catalog s @ map (discoveredTool d) decls\<rparr>)"
  using assms by (simp add: RegisterMcpServer_def)

lemma SetEnabled_resolved:
  "resolveEntity entity s \<noteq> [] \<Longrightarrow>
   fst (SetEnabled entity en s) = Inr (map qualifiedName (resolveEntity entity s))"
  by (simp add: SetEnabled_def Let_def)

lemma SetEnabled_unresolved:
  "resolveEntity entity s = [] \<Longrightarrow> SetEnabled entity en s = (Inl (Failure Validation entity), s)"
  by (simp add: SetEnabled_def Let_def)

text \<open>The scenario's service, evaluated.\<close>

lemma split_calc_add: "splitServerToolName ''calc::add'' = (''calc'', ''add'', True)"
  by (simp add: splitServerToolName_def Cut_def HasPrefix_def serverToolNameSep_def)

lemma GetTool_calc_add: "GetTool ''calc::add'' (calcService en) = Inr (calcAdd en)"
  by (simp add: GetTool_def calcService_def calcAdd_def qualifiedName_def serverToolNameSep_def)

lemma InvokeTool_calc_add_enabled:
  "InvokeTool calcClient ''calc::add'' args (calcService True)
   = (Inr (AnyFloat64 5),
      (calcService True)\<lparr>upstreamCalls := [(''calc'', ''add'', args)]\<rparr>)"
  by (simp add: InvokeTool_def split_calc_add GetTool_calc_add findServer_def)
     (simp add: calcService_def calcAdd_def calcServer_def calcClient_def)

lemma InvokeTool_calc_add_disabled:
  "InvokeTool calcClient ''calc::add'' args (calcService False)
   = (Inl (Failure Disabled ''calc::add''), calcService False)"
  by (simp add: InvokeTool_def split_calc_add GetTool_calc_add)
     (simp add: calcAdd_def)


section \<open>Facts about the handlers\<close>

lemma enableToolsHandler_success:
  "entity \<noteq> [] \<Longrightarrow> svc entity st = (Inr names, st') \<Longrightarrow>
   fst (enableToolsHandler lower Error svc metrics started entity st ms) = (StatusOK, H_enabled names)
   \<and> fst (snd (enableToolsHandler lower Error svc metrics started entity st ms)) = st'"
  by (simp add: enableToolsHandler_def)

lemma disableToolsHandler_success:
  "entity \<noteq> [] \<Longrightarrow> svc entity st = (Inr names, st') \<Longrightarrow>
   fst (disableToolsHandler lower Error svc metrics started entity st ms) = (StatusOK, H_disabled names)
   \<and> fst (snd (disableToolsHandler lower Error svc metrics started entity st ms)) = st'"
  by (simp add: disableToolsHandler_def)

lemma enableToolsHandler_failure:
  "entity \<noteq> [] \<Longrightarrow> svc entity st = (Inl e, st') \<Longrightarrow>
   enableToolsHandler lower Error svc metrics started entity st ms
     = ((StatusInternalServerError, H_error (''failed to enable tool(s): '' @ Error e)), st',
        RecordEnhancedError metrics ErrorTypeValidation
          (RecordRequest lower metrics ''enable_tools'' StatusError started (Some (Error e)) ms))"
  by (cases metrics) (simp_all add: enableToolsHandler_def RecordEnhancedError_def RecordRequest_def)

lemma disableToolsHandler_failure:
  "entity \<noteq> [] \<Longrightarrow> svc entity st = (Inl e, st') \<Longrightarrow>
   disableToolsHandler lower Error svc metrics started entity st ms
     = ((StatusInternalServerError, H_error (''failed to disable tool(s): '' @ Error e)), st',
        RecordEnhancedError metrics ErrorTypeValidation
          (RecordRequest lower metrics ''disable_tools'' StatusError started (Some (Error e)) ms))"
  by (cases metrics) (simp_all add: disableToolsHandler_def RecordEnhancedError_def RecordRequest_def)

lemma invokeToolHandler_decode_error:
  "invokeToolHandler lower Error svc metrics started (Inl err) st ms
   = ((StatusBadRequest, H_error (''failed to decode request body: '' @ Error err)), st,
      RecordRequest lower metrics ''call_tool'' StatusError started (Some (Error err)) ms)"
  by (cases metrics) (simp_all add: invokeToolHandler_def RecordRequest_def)

lemma invokeToolHandler_missing_name:
  "args ''name'' = None \<Longrightarrow>
   invokeToolHandler lower Error svc metrics started (Inr args) st ms
   = ((StatusBadRequest, H_error ''missing 'name' field in request body''), st,
      RecordRequest lower metrics ''call_tool'' StatusError started None ms)"
  by (cases metrics) (simp_all add: invokeToolHandler_def RecordRequest_def)

lemma invokeToolHandler_name_not_string:
  "args ''name'' = Some v \<Longrightarrow> \<forall>n. v \<noteq> AnyString n \<Longrightarrow>
   invokeToolHandler lower Error svc metrics started (Inr args) st ms
   = ((StatusBadRequest, H_error '''name' field must be a string''), st,
      RecordRequest lower metrics ''call_tool'' StatusError started None ms)"
  by (cases metrics; cases v) (simp_all add: invokeToolHandler_def RecordRequest_def)

lemma invokeToolHandler_success:
  "args ''name'' = Some (AnyString n) \<Longrightarrow> svc n (args(''name'' := None)) st = (Inr resp, st') \<Longrightarrow>
   fst (invokeToolHandler lower Error svc metrics started (Inr args) st ms) = (StatusOK, JSON resp)
   \<and> fst (snd (invokeToolHandler lower Error svc metrics started (Inr args) st ms)) = st'"
  by (simp add: invokeToolHandler_def Let_def split: prod.splits)

lemma invokeToolHandler_failure:
  "args ''name'' = Some (AnyString n) \<Longrightarrow> svc n (args(''name'' := None)) st = (Inl e, st') \<Longrightarrow>
   fst (invokeToolHandler lower Error svc metrics started (Inr args) st ms)
     = (StatusInternalServerError, H_error (''failed to invoke tool: '' @ Error e))
   \<and> fst (snd (invokeToolHandler lower Error svc metrics started (Inr args) st ms)) = st'"
  by (simp add: invokeToolHandler_def Let_def split: prod.splits)

lemma invokeToolHandler_failure_classified:
  "args ''name'' = Some (AnyString n) \<Longrightarrow> svc n (args(''name'' := None)) st = (Inl e, st') \<Longrightarrow>
   (RequestErrors m,
    Add 1 [(LabelMCPMethod, StringValue ''call_tool''), (LabelStatus, StringValue StatusError),
           (LabelErrorType, StringValue (getErrorType lower (Some (Error e))))])
   \<in> set (snd (snd (invokeToolHandler lower Error svc (Some m) started (Inr args) st ms)))"
  by (simp add: invokeToolHandler_def Let_def RecordRequest_def RecordTool_def boundString_def
      split: prod.splits)


section \<open>Invoking tools\<close>

text \<open>
  Claim C1: for every qualified tool name that is present in the Catalog with its enabled
  flag false, \<open>InvokeTool\<close> returns a disabled-tool error and leaves the service as it
  was; in particular no invocation is forwarded to a Transport Client. Through the
  handler the caller receives the error and the service is unchanged as well.
\<close>

theorem invoke_disabled_tool_never_reaches_client:
  assumes "GetTool q s = Inr t" and "\<not> enabled t"
  shows "InvokeTool client q args s = (Inl (Failure Disabled q), s)
       \<and> upstreamCalls (snd (InvokeTool client q args s)) = upstreamCalls s
       \<and> (body ''name'' = Some (AnyString q) \<longrightarrow>
            fst (invokeToolHandler lower Error (InvokeTool client) metrics started (Inr body) s ms)
              = (StatusInternalServerError,
                 H_error (''failed to invoke tool: '' @ Error (Failure Disabled q)))
            \<and> fst (snd (invokeToolHandler lower Error (InvokeTool client) metrics started (Inr body) s ms))
              = s)"
proof -
  have d: "InvokeTool client q (body(''name'' := None)) s = (Inl (Failure Disabled q), s)"
    by (rule InvokeTool_disabled[OF assms])
  show ?thesis
    using InvokeTool_disabled[OF assms, of client args] d
    by (simp add: invokeToolHandler_def Let_def split: prod.splits)
qed

theorem invoke_disabled_tool_never_reaches_client_witness:
  "GetTool ''calc::add'' (calcService False) = Inr (calcAdd False)
   \<and> \<not> enabled (calcAdd False)
   \<and> InvokeTool calcClient ''calc::add'' [''a'' \<mapsto> AnyFloat64 2, ''b'' \<mapsto> AnyFloat64 3]
         (calcService False)
       = (Inl (Failure Disabled ''calc::add''), calcService False)
   \<and> upstreamCalls (snd (InvokeTool calcClient ''calc::add''
         [''a'' \<mapsto> AnyFloat64 2, ''b'' \<mapsto> AnyFloat64 3] (calcService False))) = []
   \<and> fst (invokeToolHandler keepNonASCII failureText (InvokeTool calcClient) None 0
         (Inr [''name'' \<mapsto> AnyString ''calc::add'', ''a'' \<mapsto> AnyFloat64 2])
         (calcService False) [])
       = (StatusInternalServerError, H_error ''failed to invoke tool: calc::add'')
   \<and> upstreamCalls (fst (snd (invokeToolHandler keepNonASCII failureText (InvokeTool calcClient) None 0
         (Inr [''name'' \<mapsto> AnyString ''calc::add'', ''a'' \<mapsto> AnyFloat64 2])
         (calcService False) []))) = []"
proof -
  have g: "GetTool ''calc::add'' (calcService False) = Inr (calcAdd False)"
    by (rule GetTool_calc_add)
  have e: "\<not> enabled (calcAdd False)" by (simp add: calcAdd_def)
  have b: "[''name'' \<mapsto> AnyString ''calc::add'', ''a'' \<mapsto> AnyFloat64 2] ''name''
           = Some (AnyString ''calc::add'')"
    by simp
  have u: "upstreamCalls (calcService False) = []" by (simp add: calcService_def)
  from invoke_disabled_tool_never_reaches_client [OF g e, where client = calcClient
             and args = "[''a'' \<mapsto> AnyFloat64 2, ''b'' \<mapsto> AnyFloat64 3]"
             and body = "[''name'' \<mapsto> AnyString ''calc::add'', ''a'' \<mapsto> AnyFloat64 2]"
             and lower = keepNonASCII and Error = failureText and metrics = None and started = 0 and ms = "[]"]
       g e b u
  show ?thesis by simp
qed

text \<open>
  Claim C4: when the body of an invoke-tool request fails to decode, has no "name"
  field, or has a "name" that is not a string, the handler answers 400 with an error
  body, whatever the service is, and the service's state is untouched: the service is
  not called. Otherwise it calls \<open>InvokeTool\<close> once, with the name and the remaining
  arguments; it answers 200 with the result on success, and on failure 500 with the
  error's message, the error being recorded under its \<open>getErrorType\<close> label when
  metrics are configured.
\<close>

theorem invokeToolHandler_validates_then_invokes:
  "(decoded = Inl err
    \<or> decoded = Inr args \<and> (args ''name'' = None \<or> args ''name'' = Some v \<and> (\<forall>n. v \<noteq> AnyString n))
    \<longrightarrow> fst (fst (invokeToolHandler lower Error svc metrics started decoded st ms)) = StatusBadRequest
        \<and> (\<exists>msg. snd (fst (invokeToolHandler lower Error svc metrics started decoded st ms)) = H_error msg)
        \<and> fst (snd (invokeToolHandler lower Error svc metrics started decoded st ms)) = st
        \<and> invokeToolHandler lower Error svc metrics started decoded st ms
            = invokeToolHandler lower Error svc' metrics started decoded st ms)
   \<and> (decoded = Inr args \<and> args ''name'' = Some (AnyString n) \<longrightarrow>
        fst (snd (invokeToolHandler lower Error svc metrics started decoded st ms))
          = snd (svc n (args(''name'' := None)) st)
        \<and> (\<forall>resp. fst (svc n (args(''name'' := None)) st) = Inr resp \<longrightarrow>
              fst (invokeToolHandler lower Error svc metrics started decoded st ms) = (StatusOK, JSON resp))
        \<and> (\<forall>e. fst (svc n (args(''name'' := None)) st) = Inl e \<longrightarrow>
              fst (invokeToolHandler lower Error svc metrics started decoded st ms)
                = (StatusInternalServerError, H_error (''failed to invoke tool: '' @ Error e))
              \<and> (\<forall>m. metrics = Some m \<longrightarrow>
                    (RequestErrors m,
                     Add 1 [(LabelMCPMethod, StringValue ''call_tool''),
                            (LabelStatus, StringValue StatusError),
                            (LabelErrorType, StringValue (getErrorType lower (Some (Error e))))])
                    \<in> set (snd (snd (invokeToolHandler lower Error svc metrics started decoded st ms))))))"
proof (intro conjI impI)
  assume a: "decoded = Inl err
    \<or> decoded = Inr args \<and> (args ''name'' = None \<or> args ''name'' = Some v \<and> (\<forall>n. v \<noteq> AnyString n))"
  then consider (dec) "decoded = Inl err"
    | (miss) "decoded = Inr args" "args ''name'' = None"
    | (nostr) "decoded = Inr args" "args ''name'' = Some v" "\<forall>n. v \<noteq> AnyString n" by auto
  then have "\<exists>msg ms'. invokeToolHandler lower Error svc metrics started decoded st ms
                = ((StatusBadRequest, H_error msg), st, ms')
              \<and> invokeToolHandler lower Error svc' metrics started decoded st ms
                = ((StatusBadRequest, H_error msg), st, ms')"
  proof cases
    case dec then show ?thesis by (simp add: invokeToolHandler_decode_error)
  next
    case miss then show ?thesis by (simp add: invokeToolHandler_missing_name)
  next
    case nostr then show ?thesis by (simp add: invokeToolHandler_name_not_string)
  qed
  then obtain msg ms' where
    r: "invokeToolHandler lower Error svc metrics started decoded st ms
                = ((StatusBadRequest, H_error msg), st, ms')"
       "invokeToolHandler lower Error svc' metrics started decoded st ms
                = ((StatusBadRequest, H_error msg), st, ms')" by auto
  show "fst (fst (invokeToolHandler lower Error svc metrics started decoded st ms)) = StatusBadRequest"
    by (simp add: r)
  show "\<exists>msg. snd (fst (invokeToolHandler lower Error svc metrics started decoded st ms)) = H_error msg"
    by (simp add: r)
  show "fst (snd (invokeToolHandler lower Error svc metrics started decoded st ms)) = st"
    by (simp add: r)
  show "invokeToolHandler lower Error svc metrics started decoded st ms
            = invokeToolHandler lower Error svc' metrics started decoded st ms"
    by (simp add: r)
next
  assume a: "decoded = Inr args \<and> args ''name'' = Some (AnyString n)"
  obtain res st' where c: "svc n (args(''name'' := None)) st = (res, st')"
    by (cases "svc n (args(''name'' := None)) st")
  show "fst (snd (invokeToolHandler lower Error svc metrics started decoded st ms))
          = snd (svc n (args(''name'' := None)) st)"
    using a c by (cases res) (simp_all add: invokeToolHandler_success invokeToolHandler_failure)
  show "\<forall>resp. fst (svc n (args(''name'' := None)) st) = Inr resp \<longrightarrow>
              fst (invokeToolHandler lower Error svc metrics started decoded st ms) = (StatusOK, JSON resp)"
    using a c by (simp add: invokeToolHandler_success)
  show "\<forall>e. fst (svc n (args(''name'' := None)) st) = Inl e \<longrightarrow>
              fst (invokeToolHandler lower Error svc metrics started decoded st ms)
                = (StatusInternalServerError, H_error (''failed to invoke tool: '' @ Error e))
              \<and> (\<forall>m. metrics = Some m \<longrightarrow>
                    (RequestErrors m,
                     Add 1 [(LabelMCPMethod, StringValue ''call_tool''),
                            (LabelStatus, StringValue StatusError),
                            (LabelErrorType, StringValue (getErrorType lower (Some (Error e))))])
                    \<in> set (snd (snd (invokeToolHandler lower Error svc metrics started decoded st ms))))"
    using a c by (auto simp: invokeToolHandler_failure invokeToolHandler_failure_classified)
qed

theorem invokeToolHandler_validates_then_invokes_witness:
  "fst (fst (invokeToolHandler keepNonASCII failureText (InvokeTool calcClient) None 0
          (Inr [''name'' \<mapsto> AnyFloat64 1]) (calcService True) [])) = StatusBadRequest
   \<and> fst (snd (invokeToolHandler keepNonASCII failureText (InvokeTool calcClient) None 0
          (Inr [''name'' \<mapsto> AnyFloat64 1]) (calcService True) [])) = calcService True
   \<and> fst (invokeToolHandler keepNonASCII failureText (InvokeTool calcClient) None 0
          (Inr [''name'' \<mapsto> AnyString ''calc::add'', ''a'' \<mapsto> AnyFloat64 2])
          (calcService True) [])
       = (StatusOK, JSON (AnyFloat64 5))
   \<and> fst (invokeToolHandler keepNonASCII failureText (InvokeTool calcClient) (Some NewMCPMetrics) 0
          (Inr [''name'' \<mapsto> AnyString ''calc::add'', ''a'' \<mapsto> AnyFloat64 2])
          (calcService False) [])
       = (StatusInternalServerError, H_error ''failed to invoke tool: calc::add'')
   \<and> (''mcpjungle_request_errors_total'',
        Add 1 [(''mcp_method'', StringValue ''call_tool''), (''status'', StringValue ''error''),
               (''error_type'', StringValue ''unknown'')])
       \<in> set (snd (snd (invokeToolHandler keepNonASCII failureText (InvokeTool calcClient)
                 (Some NewMCPMetrics) 0
                 (Inr [''name'' \<mapsto> AnyString ''calc::add'', ''a'' \<mapsto> AnyFloat64 2])
                 (calcService False) [])))"
proof -
  have a: "[''name'' \<mapsto> AnyFloat64 1] ''name'' = Some (AnyFloat64 1)
           \<and> (\<forall>n. AnyFloat64 1 \<noteq> AnyString n)"
    by simp
  have b: "[''name'' \<mapsto> AnyString ''calc::add'', ''a'' \<mapsto> AnyFloat64 2] ''name''
           = Some (AnyString ''calc::add'')"
    by simp
  have c: "getErrorType keepNonASCII (Some ''calc::add'') = ''unknown''"
    by code_simp
  have 1: "fst (fst (invokeToolHandler keepNonASCII failureText (InvokeTool calcClient) None 0
          (Inr [''name'' \<mapsto> AnyFloat64 1]) (calcService True) [])) = StatusBadRequest
   \<and> fst (snd (invokeToolHandler keepNonASCII failureText (InvokeTool calcClient) None 0
          (Inr [''name'' \<mapsto> AnyFloat64 1]) (calcService True) [])) = calcService True"
    using a invokeToolHandler_validates_then_invokes
              [where decoded = "Inr [''name'' \<mapsto> AnyFloat64 1]"
                 and args = "[''name'' \<mapsto> AnyFloat64 1]" and v = "AnyFloat64 1"
                 and lower = keepNonASCII and Error = failureText and svc = "InvokeTool calcClient" and metrics = None
                 and started = 0 and st = "calcService True" and ms = "[]"]
    by blast
  have 2: "fst (invokeToolHandler keepNonASCII failureText (InvokeTool calcClient) None 0
          (Inr [''name'' \<mapsto> AnyString ''calc::add'', ''a'' \<mapsto> AnyFloat64 2])
          (calcService True) [])
       = (StatusOK, JSON (AnyFloat64 5))"
    using b invokeToolHandler_validates_then_invokes
              [where decoded
                   = "Inr [''name'' \<mapsto> AnyString ''calc::add'', ''a'' \<mapsto> AnyFloat64 2]"
                 and args = "[''name'' \<mapsto> AnyString ''calc::add'', ''a'' \<mapsto> AnyFloat64 2]"
                 and n = "''calc::add''"
                 and lower = keepNonASCII and Error = failureText and svc = "InvokeTool calcClient" and metrics = None
                 and started = 0 and st = "calcService True" and ms = "[]"]
    by (simp add: InvokeTool_calc_add_enabled)
  have 3: "fst (invokeToolHandler keepNonASCII failureText (InvokeTool calcClient) (Some NewMCPMetrics) 0
          (Inr [''name'' \<mapsto> AnyString ''calc::add'', ''a'' \<mapsto> AnyFloat64 2])
          (calcService False) [])
       = (StatusInternalServerError, H_error ''failed to invoke tool: calc::add'')
     \<and> (RequestErrors NewMCPMetrics,
          Add 1 [(LabelMCPMethod, StringValue ''call_tool''),
                 (LabelStatus, StringValue StatusError),
                 (LabelErrorType, StringValue (getErrorType keepNonASCII (Some ''calc::add'')))])
         \<in> set (snd (snd (invokeToolHandler keepNonASCII failureText (InvokeTool calcClient)
                 (Some NewMCPMetrics) 0
                 (Inr [''name'' \<mapsto> AnyString ''calc::add'', ''a'' \<mapsto> AnyFloat64 2])
                 (calcService False) [])))"
    using b invokeToolHandler_validates_then_invokes
              [where decoded
                   = "Inr [''name'' \<mapsto> AnyString ''calc::add'', ''a'' \<mapsto> AnyFloat64 2]"
                 and args = "[''name'' \<mapsto> AnyString ''calc::add'', ''a'' \<mapsto> AnyFloat64 2]"
                 and n = "''calc::add''"
                 and lower = keepNonASCII and Error = failureText and svc = "InvokeTool calcClient"
                 and metrics = "Some NewMCPMetrics"
                 and started = 0 and st = "calcService False" and ms = "[]"]
    by (simp add: InvokeTool_calc_add_disabled)
  have 4: "RequestErrors NewMCPMetrics = ''mcpjungle_request_errors_total''
           \<and> LabelMCPMethod = ''mcp_method'' \<and> LabelStatus = ''status''
           \<and> LabelErrorType = ''error_type'' \<and> StatusError = ''error''"
    by (simp add: NewMCPMetrics_def LabelMCPMethod_def LabelStatus_def LabelErrorType_def
        StatusError_def)
  from 1 2 3 show ?thesis unfolding c using 4 by simp
qed

text \<open>
  Claim C8: for every invoke-tool request that reaches the service, the argument map
  handed to \<open>InvokeTool\<close> is the decoded body without its "name" key: "name" is
  absent from it and every other key has the value it had in the body. A service that
  records its calls sees exactly that map.
\<close>

theorem invokeToolHandler_strips_name_argument:
  assumes "args ''name'' = Some (AnyString n)"
  shows "fst (snd (invokeToolHandler lower Error svc metrics started (Inr args) st ms))
           = snd (svc n (args |` (- {''name''})) st)
       \<and> fst (snd (invokeToolHandler lower Error (\<lambda>name a calls. (res, calls @ [(name, a)]))
                      metrics started (Inr args) calls ms))
           = calls @ [(n, args |` (- {''name''}))]
       \<and> (args |` (- {''name''})) ''name'' = None
       \<and> (\<forall>k. k \<noteq> ''name'' \<longrightarrow> (args |` (- {''name''})) k = args k)"
proof -
  have eq: "args |` (- {''name''}) = args(''name'' := None)"
    by (rule ext) (simp add: restrict_map_def)
  obtain r st' where c: "svc n (args(''name'' := None)) st = (r, st')"
    by (cases "svc n (args(''name'' := None)) st")
  have 1: "fst (snd (invokeToolHandler lower Error svc metrics started (Inr args) st ms))
           = snd (svc n (args(''name'' := None)) st)"
    using assms c by (cases r) (simp_all add: invokeToolHandler_success invokeToolHandler_failure)
  have 2: "fst (snd (invokeToolHandler lower Error (\<lambda>name a calls. (res, calls @ [(name, a)]))
                      metrics started (Inr args) calls ms))
           = calls @ [(n, args(''name'' := None))]"
    using assms by (cases res) (simp_all add: invokeToolHandler_def Let_def split: prod.splits)
  show ?thesis using 1 2 by (simp add: eq)
qed

theorem invokeToolHandler_strips_name_argument_witness:
  "[''name'' \<mapsto> AnyString ''calc::add'', ''a'' \<mapsto> AnyFloat64 2] ''name''
     = Some (AnyString ''calc::add'')
   \<and> upstreamCalls (fst (snd (invokeToolHandler keepNonASCII failureText (InvokeTool calcClient) None 0
          (Inr [''name'' \<mapsto> AnyString ''calc::add'', ''a'' \<mapsto> AnyFloat64 2])
          (calcService True) [])))
       = [(''calc'', ''add'',
           [''name'' \<mapsto> AnyString ''calc::add'', ''a'' \<mapsto> AnyFloat64 2] |` (- {''name''}))]
   \<and> ([''name'' \<mapsto> AnyString ''calc::add'', ''a'' \<mapsto> AnyFloat64 2] |` (- {''name''})) ''name''
       = None
   \<and> ([''name'' \<mapsto> AnyString ''calc::add'', ''a'' \<mapsto> AnyFloat64 2] |` (- {''name''})) ''a''
       = Some (AnyFloat64 2)"
proof -
  have b: "[''name'' \<mapsto> AnyString ''calc::add'', ''a'' \<mapsto> AnyFloat64 2] ''name''
           = Some (AnyString ''calc::add'')"
    by simp
  from invokeToolHandler_strips_name_argument [where args = "[''name'' \<mapsto> AnyString ''calc::add'', ''a'' \<mapsto> AnyFloat64 2]"
            and n = "''calc::add''" and lower = keepNonASCII and Error = failureText and svc = "InvokeTool calcClient"
            and metrics = None and started = 0 and st = "calcService True" and ms = "[]"
            and res = "Inr (AnyFloat64 5) :: failure + any" and calls = "[]"] b
  show ?thesis by (simp add: InvokeTool_calc_add_enabled)
qed


section \<open>Registering servers\<close>

text \<open>
  Claim C2: for every registration on which tool discovery fails, \<open>RegisterMcpServer\<close>
  returns an error and the service is what it was: the definition is not persisted
  and the Catalog gains no tool. When the definition is valid the error is the
  discovery failure itself. The handler answers 500 with that error and records it as a
  registration error.
\<close>

theorem register_discovery_failure_commits_nothing:
  assumes "listTools client d = Inl e"
  shows "\<exists>err. RegisterMcpServer client d s = (Some err, s)
       \<and> (validServerDef d s \<longrightarrow> err = e)
       \<and> servers (snd (RegisterMcpServer client d s)) = servers s
       \<and> catalog (snd (RegisterMcpServer client d s)) = catalog s
       \<and> (ValidateTransport (input_Transport input) = Inr tr
          \<and> (if tr = TransportStreamableHTTP
              then NewStreamableHTTPServer (input_Name input) (input_Description input)
                     (input_URL input) (input_BearerToken input) = Inr d
              else NewStdioServer (input_Name input) (input_Description input)
                     (input_Command input) (input_Args input) (input_Env input) = Inr d)
          \<longrightarrow> registerServerHandler Error ValidateTransport NewStreamableHTTPServer
                        NewStdioServer (RegisterMcpServer client) metrics (Inr input) s ms
                   = ((StatusInternalServerError, H_error (Error err)), s,
                      RecordEnhancedError metrics ErrorTypeRegistration ms))"
proof -
  from Register_discovery_failure[OF assms, of s]
  obtain err where r: "RegisterMcpServer client d s = (Some err, s)" "validServerDef d s \<longrightarrow> err = e"
    by blast
  have n: "RecordEnhancedError None ErrorTypeRegistration ms = ms"
    by (simp add: RecordEnhancedError_def)
  show ?thesis
    using r n by (cases metrics) (auto simp: registerServerHandler_def Let_def)
qed

theorem register_discovery_failure_commits_nothing_witness:
  "listTools unreachableClient calcServer = Inl (Failure Connection ''connection refused'')
   \<and> validServerDef calcServer emptyService
   \<and> RegisterMcpServer unreachableClient calcServer emptyService
       = (Some (Failure Connection ''connection refused''), emptyService)
   \<and> servers (snd (RegisterMcpServer unreachableClient calcServer emptyService)) = []
   \<and> catalog (snd (RegisterMcpServer unreachableClient calcServer emptyService)) = []
   \<and> registerServerHandler failureText (\<lambda>t. Inr TransportStdio)
        (\<lambda>n d u b. Inl (Failure Validation ''not a streamable http server''))
        (\<lambda>n d c a e. Inr calcServer)
        (RegisterMcpServer unreachableClient) (Some NewMCPMetrics)
        (Inr \<lparr>input_Name = ''calc'', input_Transport = ''stdio'',
              input_Description = ''calculator'', input_URL = [], input_BearerToken = [],
              input_Command = ''calc-tool'', input_Args = [], input_Env = []\<rparr>)
        emptyService []
       = ((StatusInternalServerError, H_error ''connection refused''), emptyService,
          [(''mcpjungle_errors_by_type_total'',
            Add 1 [(''error_type'', StringValue ''registration'')])])"
proof -
  have l: "listTools unreachableClient calcServer = Inl (Failure Connection ''connection refused'')"
    by (simp add: unreachableClient_def)
  have v: "validServerDef calcServer emptyService"
    by (simp add: validServerDef_def calcServer_def emptyService_def findServer_def)
  have m: "RecordEnhancedError (Some NewMCPMetrics) ErrorTypeRegistration []
           = [(''mcpjungle_errors_by_type_total'',
               Add 1 [(''error_type'', StringValue ''registration'')])]"
    by (simp add: RecordEnhancedError_def NewMCPMetrics_def LabelErrorType_def
        ErrorTypeRegistration_def)
  from register_discovery_failure_commits_nothing [OF l, where s = emptyService and ValidateTransport = "\<lambda>t. Inr TransportStdio"
             and tr = TransportStdio
             and NewStreamableHTTPServer
                   = "\<lambda>n d u b. Inl (Failure Validation ''not a streamable http server'')"
             and NewStdioServer = "\<lambda>n d c a e. Inr calcServer"
             and input = "\<lparr>input_Name = ''calc'', input_Transport = ''stdio'',
              input_Description = ''calculator'', input_URL = [], input_BearerToken = [],
              input_Command = ''calc-tool'', input_Args = [], input_Env = []\<rparr>"
             and Error = failureText and metrics = "Some NewMCPMetrics" and ms = "[]"]
       l v m
  show ?thesis by (auto simp: emptyService_def)
qed


section \<open>Enabling, disabling and reading tools\<close>

text \<open>
  Claim C5: for every enable or disable request whose entity reference is non-empty and
  resolves to at least one tool, the handler answers 200 and its body is exactly the
  list of affected qualified tool names that the service returns. An empty reference is
  answered 400; a reference that resolves to no tool makes the service fail with a
  validation error, which the handler answers with an error body (never a success),
  recorded as a validation error, the service being unchanged.
\<close>

theorem enable_disable_handlers_report_affected_tools:
  "(entity \<noteq> [] \<and> resolveEntity entity s \<noteq> [] \<longrightarrow>
      fst (enableToolsHandler lower Error EnableTools metrics started entity s ms)
        = (StatusOK, H_enabled (map qualifiedName (resolveEntity entity s)))
      \<and> fst (EnableTools entity s) = Inr (map qualifiedName (resolveEntity entity s))
      \<and> fst (disableToolsHandler lower Error DisableTools metrics started entity s ms)
        = (StatusOK, H_disabled (map qualifiedName (resolveEntity entity s)))
      \<and> fst (DisableTools entity s) = Inr (map qualifiedName (resolveEntity entity s)))
   \<and> (entity = [] \<longrightarrow>
      fst (enableToolsHandler lower Error EnableTools metrics started entity s ms)
        = (StatusBadRequest, H_error ''missing 'entity' query parameter'')
      \<and> fst (snd (enableToolsHandler lower Error EnableTools metrics started entity s ms)) = s
      \<and> fst (disableToolsHandler lower Error DisableTools metrics started entity s ms)
        = (StatusBadRequest, H_error ''missing 'entity' query parameter'')
      \<and> fst (snd (disableToolsHandler lower Error DisableTools metrics started entity s ms)) = s)
   \<and> (entity \<noteq> [] \<and> resolveEntity entity s = [] \<longrightarrow>
      enableToolsHandler lower Error EnableTools metrics started entity s ms
        = ((StatusInternalServerError,
            H_error (''failed to enable tool(s): '' @ Error (Failure Validation entity))), s,
           RecordEnhancedError metrics ErrorTypeValidation
             (RecordRequest lower metrics ''enable_tools'' StatusError started
                (Some (Error (Failure Validation entity))) ms))
      \<and> disableToolsHandler lower Error DisableTools metrics started entity s ms
        = ((StatusInternalServerError,
            H_error (''failed to disable tool(s): '' @ Error (Failure Validation entity))), s,
           RecordEnhancedError metrics ErrorTypeValidation
             (RecordRequest lower metrics ''disable_tools'' StatusError started
                (Some (Error (Failure Validation entity))) ms)))"
proof (intro conjI impI)
  assume a: "entity \<noteq> [] \<and> resolveEntity entity s \<noteq> []"
  then have e: "EnableTools entity s = (Inr (map qualifiedName (resolveEntity entity s)), snd (EnableTools entity s))"
    and d: "DisableTools entity s = (Inr (map qualifiedName (resolveEntity entity s)), snd (DisableTools entity s))"
    using SetEnabled_resolved[of entity s]
    by (simp_all add: EnableTools_def DisableTools_def prod_eq_iff)
  from a e enableToolsHandler_success[where svc=EnableTools and entity=entity and st=s and Error=Error and metrics=metrics and started=started and ms=ms]
  
  show "fst (enableToolsHandler lower Error EnableTools metrics started entity s ms)
        = (StatusOK, H_enabled (map qualifiedName (resolveEntity entity s)))" by blast
  from a d disableToolsHandler_success[where svc=DisableTools and entity=entity and st=s and Error=Error and metrics=metrics and started=started and ms=ms]
  
  show "fst (disableToolsHandler lower Error DisableTools metrics started entity s ms)
        = (StatusOK, H_disabled (map qualifiedName (resolveEntity entity s)))" by blast
  from e show "fst (EnableTools entity s) = Inr (map qualifiedName (resolveEntity entity s))"
    by (simp add: prod_eq_iff)
  from d show "fst (DisableTools entity s) = Inr (map qualifiedName (resolveEntity entity s))"
    by (simp add: prod_eq_iff)
next
  assume "entity = []"
  then show "fst (enableToolsHandler lower Error EnableTools metrics started entity s ms)
        = (StatusBadRequest, H_error ''missing 'entity' query parameter'')"
    "fst (snd (enableToolsHandler lower Error EnableTools metrics started entity s ms)) = s"
    "fst (disableToolsHandler lower Error DisableTools metrics started entity s ms)
        = (StatusBadRequest, H_error ''missing 'entity' query parameter'')"
    "fst (snd (disableToolsHandler lower Error DisableTools metrics started entity s ms)) = s"
    by (simp_all add: enableToolsHandler_def disableToolsHandler_def)
next
  assume a: "entity \<noteq> [] \<and> resolveEntity entity s = []"
  then have e: "EnableTools entity s = (Inl (Failure Validation entity), s)"
    and d: "DisableTools entity s = (Inl (Failure Validation entity), s)"
    by (simp_all add: EnableTools_def DisableTools_def SetEnabled_unresolved)
  from a e enableToolsHandler_failure[where svc=EnableTools and entity=entity and st=s and Error=Error and metrics=metrics and started=started and ms=ms]
  
  show "enableToolsHandler lower Error EnableTools metrics started entity s ms
        = ((StatusInternalServerError,
            H_error (''failed to enable tool(s): '' @ Error (Failure Validation entity))), s,
           RecordEnhancedError metrics ErrorTypeValidation
             (RecordRequest lower metrics ''enable_tools'' StatusError started
                (Some (Error (Failure Validation entity))) ms))" by blast
  from a d disableToolsHandler_failure[where svc=DisableTools and entity=entity and st=s and Error=Error and metrics=metrics and started=started and ms=ms]
  
  show "disableToolsHandler lower Error DisableTools metrics started entity s ms
        = ((StatusInternalServerError,
            H_error (''failed to disable tool(s): '' @ Error (Failure Validation entity))), s,
           RecordEnhancedError metrics ErrorTypeValidation
             (RecordRequest lower metrics ''disable_tools'' StatusError started
                (Some (Error (Failure Validation entity))) ms))" by blast
qed

theorem enable_disable_handlers_report_affected_tools_witness:
  "resolveEntity ''calc'' (calcService False) = [calcAdd False]
   \<and> fst (enableToolsHandler keepNonASCII failureText EnableTools None 0 ''calc'' (calcService False) [])
       = (StatusOK, H_enabled [''calc::add''])
   \<and> fst (disableToolsHandler keepNonASCII failureText DisableTools None 0 ''calc'' (calcService False) [])
       = (StatusOK, H_disabled [''calc::add''])
   \<and> fst (enableToolsHandler keepNonASCII failureText EnableTools None 0 [] (calcService False) [])
       = (StatusBadRequest, H_error ''missing 'entity' query parameter'')
   \<and> resolveEntity ''calc::sub'' (calcService False) = []
   \<and> enableToolsHandler keepNonASCII failureText EnableTools (Some NewMCPMetrics) 0 ''calc::sub''
        (calcService False) []
       = ((StatusInternalServerError, H_error ''failed to enable tool(s): calc::sub''),
          calcService False,
          RecordEnhancedError (Some NewMCPMetrics) ErrorTypeValidation
            (RecordRequest keepNonASCII (Some NewMCPMetrics) ''enable_tools'' StatusError 0
               (Some ''calc::sub'') []))"
proof -
  have r1: "resolveEntity ''calc'' (calcService False) = [calcAdd False]"
    by (simp add: resolveEntity_def matchesEntity_def findServer_def calcService_def
        calcServer_def calcAdd_def)
  have q: "qualifiedName (calcAdd False) = ''calc::add''"
    by (simp add: calcAdd_def qualifiedName_def serverToolNameSep_def)
  have r2: "resolveEntity ''calc::sub'' (calcService False) = []"
    by (simp add: resolveEntity_def matchesEntity_def findServer_def calcService_def
        calcServer_def calcAdd_def qualifiedName_def serverToolNameSep_def)
  have 1: "fst (enableToolsHandler keepNonASCII failureText EnableTools None 0 ''calc'' (calcService False) [])
       = (StatusOK, H_enabled [''calc::add''])
     \<and> fst (disableToolsHandler keepNonASCII failureText DisableTools None 0 ''calc'' (calcService False) [])
       = (StatusOK, H_disabled [''calc::add''])"
    using r1 q enable_disable_handlers_report_affected_tools [where entity = "''calc''" and s = "calcService False" and lower = keepNonASCII and Error = failureText
        and metrics = None and started = 0 and ms = "[]"]
    by simp
  have 2: "fst (enableToolsHandler keepNonASCII failureText EnableTools None 0 [] (calcService False) [])
       = (StatusBadRequest, H_error ''missing 'entity' query parameter'')"
    using enable_disable_handlers_report_affected_tools [where entity = "[]" and s = "calcService False" and lower = keepNonASCII and Error = failureText
        and metrics = None and started = 0 and ms = "[]"]
    by simp
  have 3: "enableToolsHandler keepNonASCII failureText EnableTools (Some NewMCPMetrics) 0 ''calc::sub''
        (calcService False) []
       = ((StatusInternalServerError, H_error ''failed to enable tool(s): calc::sub''),
          calcService False,
          RecordEnhancedError (Some NewMCPMetrics) ErrorTypeValidation
            (RecordRequest keepNonASCII (Some NewMCPMetrics) ''enable_tools'' StatusError 0
               (Some ''calc::sub'') []))"
    using r2 enable_disable_handlers_report_affected_tools [where entity = "''calc::sub''" and s = "calcService False"
        and lower = keepNonASCII and Error = failureText and metrics = "Some NewMCPMetrics" and started = 0 and ms = "[]"]
    by simp
  from r1 r2 1 2 3 show ?thesis by simp
qed

text \<open>
  Claim C6: a get-tool request that names a qualified tool name absent from the Catalog
  fails with a not-found error, which the handler passes on in an error body; a request
  that names a tool present in the Catalog (whose qualified names are unique) is
  answered 200 with that tool.
\<close>

theorem getTool_absent_not_found_present_found:
  "(q \<notin> qualifiedName ` set (catalog s) \<longrightarrow>
      GetTool q s = Inl (Failure NotFound q)
      \<and> (q \<noteq> [] \<longrightarrow>
           fst (getToolHandler lower Error GetTool metrics started q s ms)
             = (StatusInternalServerError, H_error (Error (Failure NotFound q)))))
   \<and> (distinct (map qualifiedName (catalog s)) \<and> t \<in> set (catalog s) \<longrightarrow>
      GetTool (qualifiedName t) s = Inr t
      \<and> fst (getToolHandler lower Error GetTool metrics started (qualifiedName t) s ms)
          = (StatusOK, JSON t))"
proof (intro conjI impI)
  assume "q \<notin> qualifiedName ` set (catalog s)"
  then have absent: "GetTool q s = Inl (Failure NotFound q)"
    by (rule GetTool_absent)
  then show "GetTool q s = Inl (Failure NotFound q)" .
  assume "q \<noteq> []"
  with absent
  show "fst (getToolHandler lower Error GetTool metrics started q s ms)
          = (StatusInternalServerError, H_error (Error (Failure NotFound q)))"
    by (simp add: getToolHandler_def)
next
  assume "distinct (map qualifiedName (catalog s)) \<and> t \<in> set (catalog s)"
  then have present: "GetTool (qualifiedName t) s = Inr t"
    by (simp add: GetTool_present)
  then show "GetTool (qualifiedName t) s = Inr t" .
  from present
  show "fst (getToolHandler lower Error GetTool metrics started (qualifiedName t) s ms)
          = (StatusOK, JSON t)"
    by (simp add: getToolHandler_def qualifiedName_nonempty)
qed

theorem getTool_absent_not_found_present_found_witness:
  "''calc::sub'' \<notin> qualifiedName ` set (catalog (calcService True))
   \<and> GetTool ''calc::sub'' (calcService True) = Inl (Failure NotFound ''calc::sub'')
   \<and> fst (getToolHandler keepNonASCII failureText GetTool None 0 ''calc::sub'' (calcService True) [])
       = (StatusInternalServerError, H_error ''calc::sub'')
   \<and> distinct (map qualifiedName (catalog (calcService True)))
   \<and> calcAdd True \<in> set (catalog (calcService True))
   \<and> qualifiedName (calcAdd True) = ''calc::add''
   \<and> GetTool ''calc::add'' (calcService True) = Inr (calcAdd True)
   \<and> fst (getToolHandler keepNonASCII failureText GetTool None 0 ''calc::add'' (calcService True) [])
       = (StatusOK, JSON (calcAdd True))"
proof -
  have a: "''calc::sub'' \<notin> qualifiedName ` set (catalog (calcService True))"
    by (simp add: calcService_def calcAdd_def qualifiedName_def serverToolNameSep_def)
  have b: "distinct (map qualifiedName (catalog (calcService True)))
           \<and> calcAdd True \<in> set (catalog (calcService True))"
    by (simp add: calcService_def)
  have c: "qualifiedName (calcAdd True) = ''calc::add''"
    by (simp add: calcAdd_def qualifiedName_def serverToolNameSep_def)
  from getTool_absent_not_found_present_found
         [where q = "''calc::sub''" and s = "calcService True" and lower = keepNonASCII
            and Error = failureText and metrics = None and started = 0 and ms = "[]"
            and t = "calcAdd True"] a b c
  show ?thesis by simp
qed

end
